theory Spec2Isabelle
  imports Complex_Main "HOL-Library.Sublist" "HOL-Library.AList"
begin

section \<open>Conventions of the embedding\<close>

text \<open>
  The development embeds the perception, validation and actuation core of the desktop
  agent: \<^verbatim>\<open>components/perceiver.py\<close>, \<^verbatim>\<open>components/controller.py\<close>, \<^verbatim>\<open>config.py\<close>,
  \<^verbatim>\<open>advanced_features.py\<close> (the safety monitor), \<^verbatim>\<open>utils/task_tracker.py\<close> and the
  decomposer and execution engine of \<^verbatim>\<open>real_desktop_agent.py\<close>.

  The values of Python floats are idealised as rationals. The float comparisons of the
  embedded code are between constants (100, 0.2, 0.75, ...) and quotients of screen-sized
  integers, where the correctly rounded quotient decides the comparison as the exact one
  does. In the two places where rounding can change what the code does, the OCR
  threshold \<^verbatim>\<open>min_ocr_confidence * 100\<close> and the conversion of an integer coordinate to a
  float, the rounding to a double is written out (\<open>round_double\<close>). Strings are lists of
  code points below 256. Everything that the code
  obtains from outside (the contours found by the vision library, the reply of the
  language model, the user's answer to a dialog, the outcome of a device call) is a
  parameter of the model.
\<close>

datatype py_error =
  ZeroDivisionError | AttributeError | KeyError string | TypeError | ValueError | EOFError

section \<open>Perception: classification of UI elements (perceiver.py)\<close>

text \<open>
  A contour as \<^verbatim>\<open>detect_elements\<close> sees it: \<^verbatim>\<open>cv2.contourArea\<close> and the four numbers
  of \<^verbatim>\<open>cv2.boundingRect\<close>.
\<close>

record contour =
  c_area :: rat
  c_x :: int
  c_y :: int
  c_w :: int
  c_h :: int

record ui_element =
  el_type :: string
  bbox_x :: int
  bbox_y :: int
  bbox_width :: int
  bbox_height :: int
  center_x :: int
  center_y :: int
  el_area :: rat
  confidence :: rat

text \<open>
  \<^verbatim>\<open>_classify_element\<close> is a chain of guarded early returns. Each rule is one guarded
  return of the source, with the nesting of its two \<^verbatim>\<open>if\<close>s kept.
\<close>

definition button_rule :: "rat \<Rightarrow> rat \<Rightarrow> int \<Rightarrow> int \<Rightarrow> string option" where
  "button_rule area aspect_ratio width height =
     (if 1000 < area \<and> area < 50000 \<and> 2 / 10 < aspect_ratio \<and> aspect_ratio < 5
      then (if 20 < width \<and> width < 400 \<and> 15 < height \<and> height < 100
            then Some ''button'' else None)
      else None)"

definition input_rule :: "rat \<Rightarrow> rat \<Rightarrow> int \<Rightarrow> int \<Rightarrow> string option" where
  "input_rule area aspect_ratio width height =
     (if 500 < area \<and> area < 100000 \<and> aspect_ratio > 2
      then (if height < 50 then Some ''input'' else None)
      else None)"

definition icon_rule :: "rat \<Rightarrow> rat \<Rightarrow> int \<Rightarrow> int \<Rightarrow> string option" where
  "icon_rule area aspect_ratio width height =
     (if 400 < area \<and> area < 10000 \<and> 5 / 10 < aspect_ratio \<and> aspect_ratio < 2
      then Some ''icon'' else None)"

definition panel_rule :: "rat \<Rightarrow> rat \<Rightarrow> int \<Rightarrow> int \<Rightarrow> string option" where
  "panel_rule area aspect_ratio width height =
     (if area > 50000 then Some ''panel'' else None)"

definition classify_element :: "rat \<Rightarrow> rat \<Rightarrow> int \<Rightarrow> int \<Rightarrow> string option" where
  "classify_element area aspect_ratio width height =
     (case button_rule area aspect_ratio width height of
        Some t \<Rightarrow> Some t
      | None \<Rightarrow>
     (case input_rule area aspect_ratio width height of
        Some t \<Rightarrow> Some t
      | None \<Rightarrow>
     (case icon_rule area aspect_ratio width height of
        Some t \<Rightarrow> Some t
      | None \<Rightarrow> panel_rule area aspect_ratio width height)))"

text \<open>
  The classification as the specification words it: one first-match-wins chain over
  \<open>(area, aspect_ratio, width, height)\<close>.
\<close>

definition classify_spec :: "rat \<Rightarrow> rat \<Rightarrow> int \<Rightarrow> int \<Rightarrow> string option" where
  "classify_spec area aspect width height =
     (if 1000 < area \<and> area < 50000 \<and> 2 / 10 < aspect \<and> aspect < 5 \<and>
         20 < width \<and> width < 400 \<and> 15 < height \<and> height < 100 then Some ''button''
      else if 500 < area \<and> area < 100000 \<and> 2 < aspect \<and> height < 50 then Some ''input''
      else if 400 < area \<and> area < 10000 \<and> 5 / 10 < aspect \<and> aspect < 2 then Some ''icon''
      else if 50000 < area then Some ''panel''
      else None)"

definition make_element :: "string \<Rightarrow> contour \<Rightarrow> ui_element" where
  "make_element t c =
     \<lparr> el_type = t,
       bbox_x = c_x c, bbox_y = c_y c, bbox_width = c_w c, bbox_height = c_h c,
       center_x = c_x c + c_w c div 2, center_y = c_y c + c_h c div 2,
       el_area = c_area c,
       confidence = min 1 (c_area c / 10000) \<rparr>"

text \<open>
  The loop over the contours. \<^verbatim>\<open>aspect_ratio = w / h\<close> raises on a zero height; the
  \<^verbatim>\<open>continue\<close> for a small area comes before the division.
\<close>

fun collect_elements :: "contour list \<Rightarrow> py_error + ui_element list" where
  "collect_elements [] = Inr []"
| "collect_elements (c # cs) =
     (if c_area c < 100 then collect_elements cs
      else if c_h c = 0 then Inl ZeroDivisionError
      else (case classify_element (c_area c) (of_int (c_w c) / of_int (c_h c)) (c_w c) (c_h c) of
              None \<Rightarrow> collect_elements cs
            | Some t \<Rightarrow>
                (case collect_elements cs of
                   Inl e \<Rightarrow> Inl e
                 | Inr es \<Rightarrow> Inr (make_element t c # es))))"

text \<open>
  \<^verbatim>\<open>detect_elements\<close>: \<open>None\<close> is an image that could not be read. Any exception is
  caught and gives the empty list. \<^verbatim>\<open>list.sort(key=..., reverse=True)\<close> is stable, as is
  \<^const>\<open>sort_key\<close> on the negated key.
\<close>

definition detect_elements :: "contour list option \<Rightarrow> ui_element list" where
  "detect_elements img =
     (case img of
        None \<Rightarrow> []
      | Some contours \<Rightarrow>
          (case collect_elements contours of
             Inl e \<Rightarrow> []
           | Inr elements \<Rightarrow> take 50 (sort_key (\<lambda>x. - confidence x) elements)))"

text \<open>
  What one region contributes as the specification words it: nothing when its area is
  below 100 or no rule matches, else the element of the matching rule. The division
  \<^verbatim>\<open>w / h\<close> fails for a region of area at least 100 and height 0.
\<close>

definition spec_element :: "contour \<Rightarrow> ui_element option" where
  "spec_element c =
     (if c_area c < 100 then None
      else (case classify_spec (c_area c) (of_int (c_w c) / of_int (c_h c)) (c_w c) (c_h c) of
              None \<Rightarrow> None
            | Some t \<Rightarrow> Some (make_element t c)))"

definition division_fails :: "contour \<Rightarrow> bool" where
  "division_fails c = (100 \<le> c_area c \<and> c_h c = 0)"

definition classified_region :: "ui_element \<Rightarrow> bool" where
  "classified_region e =
     (100 \<le> el_area e \<and>
      classify_spec (el_area e) (of_int (bbox_width e) / of_int (bbox_height e))
        (bbox_width e) (bbox_height e) = Some (el_type e) \<and>
      confidence e = min 1 (el_area e / 10000))"

section \<open>Python strings and values\<close>

text \<open>
  The string methods the embedded code calls, on code points below 256.
  \<^verbatim>\<open>str.isspace\<close> holds of TAB..CR, FS..US, space, NEL and NBSP.
\<close>

definition py_isspace :: "char \<Rightarrow> bool" where
  "py_isspace c =
     (c \<in> set [CHR 0x09, CHR 0x0A, CHR 0x0B, CHR 0x0C, CHR 0x0D,
                CHR 0x1C, CHR 0x1D, CHR 0x1E, CHR 0x1F, CHR 0x20, CHR 0x85, CHR 0xA0])"

text \<open>
  \<^verbatim>\<open>str.lower\<close> maps A..Z and the capital letters of the Latin-1 block (C0..DE without
  the multiplication sign D7) to the letter 32 code points higher.
\<close>

definition upper_letters :: "string" where
  "upper_letters = ''ABCDEFGHIJKLMNOPQRSTUVWXYZ'' @
       [CHR 0xC0, CHR 0xC1, CHR 0xC2, CHR 0xC3, CHR 0xC4, CHR 0xC5, CHR 0xC6, CHR 0xC7, CHR 0xC8, CHR 0xC9,
        CHR 0xCA, CHR 0xCB, CHR 0xCC, CHR 0xCD, CHR 0xCE, CHR 0xCF, CHR 0xD0, CHR 0xD1, CHR 0xD2, CHR 0xD3,
        CHR 0xD4, CHR 0xD5, CHR 0xD6, CHR 0xD8, CHR 0xD9, CHR 0xDA, CHR 0xDB, CHR 0xDC, CHR 0xDD, CHR 0xDE]"

definition lower_letters :: "string" where
  "lower_letters = ''abcdefghijklmnopqrstuvwxyz'' @
       [CHR 0xE0, CHR 0xE1, CHR 0xE2, CHR 0xE3, CHR 0xE4, CHR 0xE5, CHR 0xE6, CHR 0xE7, CHR 0xE8, CHR 0xE9,
        CHR 0xEA, CHR 0xEB, CHR 0xEC, CHR 0xED, CHR 0xEE, CHR 0xEF, CHR 0xF0, CHR 0xF1, CHR 0xF2, CHR 0xF3,
        CHR 0xF4, CHR 0xF5, CHR 0xF6, CHR 0xF8, CHR 0xF9, CHR 0xFA, CHR 0xFB, CHR 0xFC, CHR 0xFD, CHR 0xFE]"

definition py_lower_char :: "char \<Rightarrow> char" where
  "py_lower_char c = (case map_of (zip upper_letters lower_letters) c of None \<Rightarrow> c | Some l \<Rightarrow> l)"

definition py_lower :: "string \<Rightarrow> string" where
  "py_lower s = map py_lower_char s"

definition py_strip :: "string \<Rightarrow> string" where
  "py_strip s = rev (dropWhile py_isspace (rev (dropWhile py_isspace s)))"

text \<open>\<^verbatim>\<open>sub in s\<close> on strings.\<close>

fun py_in :: "string \<Rightarrow> string \<Rightarrow> bool" where
  "py_in sub [] = (sub = [])"
| "py_in sub (c # cs) = (prefix sub (c # cs) \<or> py_in sub cs)"

definition py_startswith :: "string \<Rightarrow> string \<Rightarrow> bool" where
  "py_startswith s p = prefix p s"

text \<open>
  \<^verbatim>\<open>s.replace(old, new)\<close> and \<^verbatim>\<open>s.split(sep)\<close> scan from the left and skip over each
  match; the first argument of the scanning functions counts the characters of a match
  still to be skipped. Python raises on an empty separator; the embedded code only
  splits on non-empty literals, and here an empty separator never matches.
\<close>

fun replace_scan :: "nat \<Rightarrow> string \<Rightarrow> string \<Rightarrow> string \<Rightarrow> string" where
  "replace_scan k old new [] = []"
| "replace_scan (Suc k) old new (c # cs) = replace_scan k old new cs"
| "replace_scan 0 old new (c # cs) =
     (if prefix old (c # cs) then new @ replace_scan (length old - 1) old new cs
      else c # replace_scan 0 old new cs)"

definition py_replace :: "string \<Rightarrow> string \<Rightarrow> string \<Rightarrow> string" where
  "py_replace s old new =
     (if old = [] then new @ concat (map (\<lambda>c. c # new) s) else replace_scan 0 old new s)"

fun split_scan :: "nat \<Rightarrow> string \<Rightarrow> string \<Rightarrow> string \<Rightarrow> string list" where
  "split_scan k sep acc [] = [rev acc]"
| "split_scan (Suc k) sep acc (c # cs) = split_scan k sep acc cs"
| "split_scan 0 sep acc (c # cs) =
     (if sep \<noteq> [] \<and> prefix sep (c # cs) then rev acc # split_scan (length sep - 1) sep [] cs
      else split_scan 0 sep (c # acc) cs)"

definition py_split :: "string \<Rightarrow> string \<Rightarrow> string list" where
  "py_split s sep = split_scan 0 sep [] s"

text \<open>\<^verbatim>\<open>s.split(sep, 1)\<close>: at most one split, at the first occurrence.\<close>

fun split_once_scan :: "string \<Rightarrow> string \<Rightarrow> string \<Rightarrow> string list" where
  "split_once_scan sep acc [] = [rev acc]"
| "split_once_scan sep acc (c # cs) =
     (if sep \<noteq> [] \<and> prefix sep (c # cs) then [rev acc, drop (length sep) (c # cs)]
      else split_once_scan sep (c # acc) cs)"

definition py_split1 :: "string \<Rightarrow> string \<Rightarrow> string list" where
  "py_split1 s sep = split_once_scan sep [] s"

text \<open>
  \<^verbatim>\<open>s.splitlines()\<close>: the line boundaries below 256 are LF, VT, FF, CR, CR LF, FS, GS, RS
  and NEL; a final boundary opens no further line.
\<close>

definition py_linebreak :: "char \<Rightarrow> bool" where
  "py_linebreak c =
     (c \<in> set [CHR 0x0A, CHR 0x0B, CHR 0x0C, CHR 0x0D, CHR 0x1C, CHR 0x1D, CHR 0x1E, CHR 0x85])"

fun splitlines_scan :: "string \<Rightarrow> string \<Rightarrow> string list" where
  "splitlines_scan acc [] = (if acc = [] then [] else [rev acc])"
| "splitlines_scan acc [c] =
     (if py_linebreak c then [rev acc] else [rev (c # acc)])"
| "splitlines_scan acc (c # d # cs) =
     (if c = CHR 0x0D \<and> d = CHR 0x0A then rev acc # splitlines_scan [] cs
      else if py_linebreak c then rev acc # splitlines_scan [] (d # cs)
      else splitlines_scan (c # acc) (d # cs))"

definition py_splitlines :: "string \<Rightarrow> string list" where
  "py_splitlines s = splitlines_scan [] s"

text \<open>\<^verbatim>\<open>str.isdigit\<close> of one character: the ASCII digits and the superscripts 2, 3, 1.\<close>

definition py_isdigit :: "char \<Rightarrow> bool" where
  "py_isdigit c = (c \<in> set ''0123456789'' \<or> c \<in> set [CHR 0xB2, CHR 0xB3, CHR 0xB9])"

fun py_join :: "string \<Rightarrow> string list \<Rightarrow> string" where
  "py_join sep [] = []"
| "py_join sep [x] = x"
| "py_join sep (x # y # ys) = x @ sep @ py_join sep (y # ys)"

text \<open>
  The values an action dictionary holds: strings, integers, booleans and \<^verbatim>\<open>None\<close>
  (floating-point parameters are left out). A dictionary is an association list in
  insertion order with string keys.
\<close>

datatype pyval = PStr string | PInt int | PBool bool | PNone

type_synonym action = "(string \<times> pyval) list"

definition truthy :: "pyval \<Rightarrow> bool" where
  "truthy v = (case v of PStr s \<Rightarrow> s \<noteq> [] | PInt i \<Rightarrow> i \<noteq> 0 | PBool b \<Rightarrow> b | PNone \<Rightarrow> False)"

definition dict_get :: "action \<Rightarrow> string \<Rightarrow> pyval \<Rightarrow> pyval" where
  "dict_get d k dflt = (case map_of d k of None \<Rightarrow> dflt | Some v \<Rightarrow> v)"

definition dict_has :: "action \<Rightarrow> string \<Rightarrow> bool" where
  "dict_has d k = (map_of d k \<noteq> None)"

text \<open>\<^verbatim>\<open>repr\<close> of a string, an integer, a value, and \<^verbatim>\<open>str\<close> of a dictionary.\<close>

definition hex_digit :: "nat \<Rightarrow> char" where
  "hex_digit n = ''0123456789abcdef'' ! (n mod 16)"

definition repr_char :: "char \<Rightarrow> char \<Rightarrow> string" where
  "repr_char quote c =
     (let n = (of_char c :: nat) in
      if c = quote \<or> c = CHR 0x5C then [CHR 0x5C, c]
      else if c = CHR 0x09 then [CHR 0x5C, CHR ''t'']
      else if c = CHR 0x0A then [CHR 0x5C, CHR ''n'']
      else if c = CHR 0x0D then [CHR 0x5C, CHR ''r'']
      else if n < 32 \<or> n = 127 \<or> (128 \<le> n \<and> n \<le> 160) \<or> n = 173
        then [CHR 0x5C, CHR ''x'', hex_digit (n div 16), hex_digit n]
      else [c])"

definition repr_str :: "string \<Rightarrow> string" where
  "repr_str s =
     (let quote = (if CHR 0x27 \<in> set s \<and> CHR 0x22 \<notin> set s then CHR 0x22 else CHR 0x27)
      in quote # concat (map (repr_char quote) s) @ [quote])"

definition digit_char :: "int \<Rightarrow> char" where
  "digit_char d = ''0123456789'' ! nat d"

text \<open>The decimal digits of a non-negative integer.\<close>

function digits_of :: "int \<Rightarrow> string" where
  "digits_of n =
     (if n < 10 then [digit_char n]
      else digits_of (n div 10) @ [digit_char (n mod 10)])"
  by pat_completeness auto
termination
  by (relation "measure nat") auto

declare digits_of.simps [simp del]

definition repr_int :: "int \<Rightarrow> string" where
  "repr_int i = (if i < 0 then CHR ''-'' # digits_of (- i) else digits_of i)"

definition repr_val :: "pyval \<Rightarrow> string" where
  "repr_val v =
     (case v of
        PStr s \<Rightarrow> repr_str s
      | PInt i \<Rightarrow> repr_int i
      | PBool b \<Rightarrow> (if b then ''True'' else ''False'')
      | PNone \<Rightarrow> ''None'')"

definition str_dict :: "action \<Rightarrow> string" where
  "str_dict d =
     ''{'' @ py_join '', '' (map (\<lambda>(k, v). repr_str k @ '': '' @ repr_val v) d) @ ''}''"

section \<open>Rounding to a double\<close>

text \<open>
  The IEEE 754 double nearest to a rational, ties to the even mantissa, in the normal
  range: the value is scaled to a mantissa in \<open>[2^52, 2^53)\<close>, the mantissa is rounded
  to an integer and scaled back.
\<close>

function bit_length :: "int \<Rightarrow> int" where
  "bit_length n = (if n \<le> 0 then 0 else 1 + bit_length (n div 2))"
  by pat_completeness auto
termination
  by (relation "measure nat") auto

declare bit_length.simps [simp del]

definition pow2 :: "int \<Rightarrow> rat" where
  "pow2 k = (if k \<ge> 0 then 2 ^ nat k else 1 / 2 ^ nat (- k))"

text \<open>The integer part of the binary logarithm of \<open>p / q\<close>, for positive \<open>p\<close> and \<open>q\<close>.\<close>

definition floor_log2 :: "int \<Rightarrow> int \<Rightarrow> int" where
  "floor_log2 p q =
     (let d = bit_length p - bit_length q
      in if of_int p / of_int q \<ge> pow2 d then d else d - 1)"

definition round_half_even :: "rat \<Rightarrow> int" where
  "round_half_even m =
     (let f = \<lfloor>m\<rfloor>; r = m - of_int f
      in if r > 1 / 2 \<or> (r = 1 / 2 \<and> odd f) then f + 1 else f)"

definition round_double :: "rat \<Rightarrow> rat" where
  "round_double x =
     (if x = 0 then 0
      else (case quotient_of \<bar>x\<bar> of
              (p, q) \<Rightarrow>
                (let e = floor_log2 p q - 52
                 in sgn x * of_int (round_half_even (\<bar>x\<bar> / pow2 e)) * pow2 e)))"

text \<open>
  \<^verbatim>\<open>int(x * 1.0)\<close> for an integer \<open>x\<close>: the integer becomes the nearest double, and
  Python raises \<^verbatim>\<open>OverflowError\<close> when that is beyond the largest double, that is, when
  the rounded value needs more than 1024 bits.
\<close>

definition scale_by_one :: "int \<Rightarrow> int option" where
  "scale_by_one x =
     (let y = \<lfloor>round_double (of_int x)\<rfloor>
      in if bit_length \<bar>y\<bar> > 1024 then None else Some y)"

section \<open>Configuration (config.py)\<close>

definition ACTION_SAFETY_LEVELS :: "(string \<times> int) list" where
  "ACTION_SAFETY_LEVELS =
     [(''click'', 0), (''type'', 1), (''key_press'', 1), (''scroll'', 0), (''drag'', 1),
      (''file_operation'', 3), (''system_command'', 3), (''password_entry'', 3)]"

definition SENSITIVE_KEYWORDS :: "string list" where
  "SENSITIVE_KEYWORDS =
     [''password'', ''credit card'', ''delete'', ''format'', ''sudo'', ''admin'',
      ''system32'', ''registry'', ''rm -rf'', ''del /f'', ''format c:'']"

section \<open>Action validation (controller.py, ActionValidator)\<close>

text \<open>
  \<^verbatim>\<open>action.get("type", "").lower()\<close> raises when the value stored under \<^verbatim>\<open>type\<close> is not
  a string.
\<close>

definition action_type_lower :: "action \<Rightarrow> py_error + string" where
  "action_type_lower action =
     (case dict_get action ''type'' (PStr []) of
        PStr s \<Rightarrow> Inr (py_lower s)
      | _ \<Rightarrow> Inl AttributeError)"

text \<open>The keyword loop: the first keyword found in the text sets the flag and breaks.\<close>

fun scan_keywords :: "string list \<Rightarrow> string \<Rightarrow> bool \<Rightarrow> bool" where
  "scan_keywords [] action_text requires_confirmation = requires_confirmation"
| "scan_keywords (keyword # rest) action_text requires_confirmation =
     (if py_in keyword action_text then True
      else scan_keywords rest action_text requires_confirmation)"

text \<open>
  \<^verbatim>\<open>validate_action\<close> returns \<open>(is_valid, error_message, requires_confirmation)\<close>; its
  first argument is \<^verbatim>\<open>CONFIG.controller.safe_mode\<close>.
\<close>

definition validate_action ::
  "bool \<Rightarrow> action \<Rightarrow> py_error + (bool \<times> string option \<times> bool)" where
  "validate_action safe_mode action =
     (case action_type_lower action of
        Inl e \<Rightarrow> Inl e
      | Inr action_type \<Rightarrow>
          (case map_of ACTION_SAFETY_LEVELS action_type of
             None \<Rightarrow> Inr (False, Some (''Unsupported action type: '' @ action_type), False)
           | Some safety_level \<Rightarrow>
               (let requires_confirmation =
                      scan_keywords SENSITIVE_KEYWORDS (py_lower (str_dict action))
                        (safety_level \<ge> 3 \<or> \<not> safe_mode)
                in if action_type = ''click'' then
                     (if \<not> dict_has action ''x'' \<or> \<not> dict_has action ''y''
                      then Inr (False, Some ''Click action missing coordinates'', False)
                      else Inr (True, None, requires_confirmation))
                   else if action_type = ''type'' then
                     (if \<not> dict_has action ''text''
                      then Inr (False, Some ''Type action missing text'', False)
                      else Inr (True, None, requires_confirmation))
                   else if action_type = ''key_press'' then
                     (if \<not> dict_has action ''key''
                      then Inr (False, Some ''Key press action missing key'', False)
                      else Inr (True, None, requires_confirmation))
                   else Inr (True, None, requires_confirmation))))"

text \<open>
  The keyword list as the specification gives it, for comparison with
  \<^const>\<open>SENSITIVE_KEYWORDS\<close>.
\<close>

definition spec_sensitive_keywords :: "string list" where
  "spec_sensitive_keywords =
     [''delete'', ''remove'', ''format'', ''rm'', ''del'', ''sudo'', ''admin'', ''password'',
      ''credit card'', ''system32'', ''registry'', ''rm -rf'', ''del /f'', ''format c:'']"

section \<open>The confirmation gate (controller.py, UserConfirmation)\<close>

text \<open>
  What the gate meets when it asks: \<^verbatim>\<open>find_spec("tkinter")\<close> is \<^verbatim>\<open>None\<close>; the import of
  the message box raises \<^verbatim>\<open>ImportError\<close> and the console is asked instead; the dialog
  returns the user's answer; or anything else is raised inside the \<^verbatim>\<open>try\<close>. An
  exception of \<^verbatim>\<open>input\<close> inside the \<^verbatim>\<open>except ImportError\<close> handler is not caught by
  the sibling handler and leaves the function.
\<close>

datatype console = ConsoleReply string | ConsoleRaises

datatype confirm_channel =
    TkinterSpecMissing
  | MessageboxImportError console
  | AskYesNo bool
  | OtherException

definition request_confirmation :: "bool \<Rightarrow> confirm_channel \<Rightarrow> py_error + bool" where
  "request_confirmation confirm_sensitive_actions ch =
     (if \<not> confirm_sensitive_actions then Inr True
      else (case ch of
              TkinterSpecMissing \<Rightarrow> Inr True
            | AskYesNo result \<Rightarrow> Inr result
            | MessageboxImportError (ConsoleReply response) \<Rightarrow>
                Inr (py_lower (py_strip response) \<in> set [''y'', ''yes''])
            | MessageboxImportError ConsoleRaises \<Rightarrow> Inl EOFError
            | OtherException \<Rightarrow> Inr False))"

section \<open>Low-level interaction (controller.py, ScreenInteraction and ApplicationManager)\<close>

text \<open>
  The surroundings of one call: the two configuration flags, the confirmation channel,
  the screen size \<^verbatim>\<open>pyautogui.size()\<close>, the scaling \<open>x \<mapsto> int(x * scaling_factor)\<close>
  (\<open>None\<close>: the float product overflows and Python raises), whether the device call
  raises, the platform, whether xdotool works and the process id a launch yields
  (\<open>None\<close>: the launch raises).
\<close>

datatype platform = Windows | Linux | OtherPlatform

record env =
  safe_mode :: bool
  confirm_sensitive_actions :: bool
  channel :: confirm_channel
  screen_width :: int
  screen_height :: int
  scaled :: "int \<Rightarrow> int option"
  device_ok :: bool
  host :: platform
  xdotool_ok :: bool
  popen_pid :: "nat option"

text \<open>The calls that reach the operating system.\<close>

datatype device_call =
    Click int int pyval pyval
  | MoveTo int int "pyval option"
  | Drag int int "pyval option"
  | XdotoolType string
  | Write string
  | Hotkey "string list"
  | Press string
  | Scroll int
  | Popen "string list"
  | Terminate nat
  | Sleep "pyval option"

text \<open>A number as Python multiplies it: booleans count as 0 and 1.\<close>

definition as_number :: "pyval \<Rightarrow> int option" where
  "as_number v =
     (case v of PInt i \<Rightarrow> Some i | PBool b \<Rightarrow> Some (if b then 1 else 0) | _ \<Rightarrow> None)"

definition validate_coordinates :: "env \<Rightarrow> int \<Rightarrow> int \<Rightarrow> bool" where
  "validate_coordinates e x y =
     (0 \<le> x \<and> x \<le> screen_width e \<and> 0 \<le> y \<and> y \<le> screen_height e)"

text \<open>
  Each operation returns its boolean result and the device calls it issued. Every
  exception inside an operation is caught there and gives \<open>False\<close>.
\<close>

definition click :: "env \<Rightarrow> pyval \<Rightarrow> pyval \<Rightarrow> pyval \<Rightarrow> pyval \<Rightarrow> bool \<times> device_call list" where
  "click e x y button clicks =
     (case (as_number x, as_number y) of
        (Some xi, Some yi) \<Rightarrow>
          (case (scaled e xi, scaled e yi) of
             (Some adj_x, Some adj_y) \<Rightarrow>
               (if \<not> validate_coordinates e adj_x adj_y then (False, [])
                else (device_ok e, [Click adj_x adj_y button clicks]))
           | _ \<Rightarrow> (False, []))
      | _ \<Rightarrow> (False, []))"

definition move_mouse :: "env \<Rightarrow> pyval \<Rightarrow> pyval \<Rightarrow> pyval option \<Rightarrow> bool \<times> device_call list" where
  "move_mouse e x y duration =
     (case (as_number x, as_number y) of
        (Some xi, Some yi) \<Rightarrow>
          (case (scaled e xi, scaled e yi) of
             (Some adj_x, Some adj_y) \<Rightarrow>
               (if validate_coordinates e adj_x adj_y
                then (device_ok e, [MoveTo adj_x adj_y duration])
                else (False, []))
           | _ \<Rightarrow> (False, []))
      | _ \<Rightarrow> (False, []))"

definition drag ::
  "env \<Rightarrow> pyval \<Rightarrow> pyval \<Rightarrow> pyval \<Rightarrow> pyval \<Rightarrow> pyval option \<Rightarrow> bool \<times> device_call list" where
  "drag e start_x start_y end_x end_y duration =
     (case (as_number start_x, as_number start_y, as_number end_x, as_number end_y) of
        (Some sx, Some sy, Some ex, Some ey) \<Rightarrow>
          (case (scaled e sx, scaled e sy, scaled e ex, scaled e ey) of
             (Some adj_sx, Some adj_sy, Some adj_ex, Some adj_ey) \<Rightarrow>
               (device_ok e, [Drag (adj_ex - adj_sx) (adj_ey - adj_sy) duration])
           | _ \<Rightarrow> (False, []))
      | _ \<Rightarrow> (False, []))"

text \<open>
  \<^verbatim>\<open>type_text\<close>. On Linux the delay argument of xdotool is \<^verbatim>\<open>str(int(interval * 1000))\<close>;
  when the interval is no number this raises before xdotool runs, and the text goes to
  \<^verbatim>\<open>pyautogui.write\<close>, as it does when xdotool fails. \<open>None\<close> is the default interval. (A
  string of digits repeated a thousand times may still read as an integer; such an
  interval is not told apart from other strings.)
\<close>

definition delay_builds :: "pyval option \<Rightarrow> bool" where
  "delay_builds interval = (case interval of None \<Rightarrow> True | Some v \<Rightarrow> as_number v \<noteq> None)"

definition type_text :: "env \<Rightarrow> pyval \<Rightarrow> pyval option \<Rightarrow> bool \<times> device_call list" where
  "type_text e text interval =
     (case text of
        PStr t \<Rightarrow>
          (if host e = Linux then
             (if delay_builds interval then
                (if xdotool_ok e then (True, [XdotoolType t])
                 else (device_ok e, [XdotoolType t, Write t]))
              else (device_ok e, [Write t]))
           else (device_ok e, [Write t]))
      | _ \<Rightarrow> (False, []))"

definition press_key :: "env \<Rightarrow> pyval \<Rightarrow> pyval \<Rightarrow> bool \<times> device_call list" where
  "press_key e key presses =
     (case key of
        PStr k \<Rightarrow>
          (if py_in ''+'' k then (device_ok e, [Hotkey (py_split k ''+'')])
           else (case as_number presses of
                   None \<Rightarrow> (False, [])
                 | Some n \<Rightarrow>
                     (if n \<le> 0 then (True, [])
                      else if device_ok e then (True, replicate (nat n) (Press k))
                      else (False, [Press k]))))
      | _ \<Rightarrow> (False, []))"

definition scroll :: "env \<Rightarrow> pyval \<Rightarrow> pyval \<Rightarrow> bool \<times> device_call list" where
  "scroll e direction amount =
     (case (direction, as_number amount) of
        (PStr d, Some a) \<Rightarrow>
          (device_ok e, [Scroll (if py_lower d = ''up'' then a else - a)])
      | _ \<Rightarrow> (False, []))"

text \<open>
  The application manager keeps \<^verbatim>\<open>running_apps\<close>, a dictionary from application name
  to process id. Any value of an action can be a name; as dictionary keys \<^verbatim>\<open>True\<close> and
  \<^verbatim>\<open>False\<close> are the keys 1 and 0. A launch without a path needs a string as name, and a
  path must be a string.
\<close>

definition dict_key :: "pyval \<Rightarrow> pyval" where
  "dict_key v = (case v of PBool b \<Rightarrow> PInt (if b then 1 else 0) | _ \<Rightarrow> v)"

definition launch_application ::
  "env \<Rightarrow> (pyval \<times> nat) list \<Rightarrow> pyval \<Rightarrow> pyval \<Rightarrow>
   bool \<times> device_call list \<times> (pyval \<times> nat) list" where
  "launch_application e running_apps app_name app_path =
     (let argv =
            (if truthy app_path
             then (case app_path of PStr p \<Rightarrow> Some [p] | _ \<Rightarrow> None)
             else (case (host e, app_name) of
                     (Windows, PStr name) \<Rightarrow> Some [''start'', name]
                   | (Linux, PStr name) \<Rightarrow> Some [name]
                   | _ \<Rightarrow> None))
      in (case argv of
            None \<Rightarrow> (False, [], running_apps)
          | Some args \<Rightarrow>
              (case popen_pid e of
                 None \<Rightarrow> (False, [Popen args], running_apps)
               | Some pid \<Rightarrow>
                   (True, [Popen args, Sleep (Some (PInt 2))],
                    AList.update (dict_key app_name) pid running_apps))))"

definition close_application ::
  "env \<Rightarrow> (pyval \<times> nat) list \<Rightarrow> pyval \<Rightarrow>
   bool \<times> device_call list \<times> (pyval \<times> nat) list" where
  "close_application e running_apps app_name =
     (case map_of running_apps (dict_key app_name) of
        None \<Rightarrow> (False, [], running_apps)
      | Some pid \<Rightarrow>
          (if device_ok e
           then (True, [Terminate pid], AList.delete (dict_key app_name) running_apps)
           else (False, [Terminate pid], running_apps)))"

section \<open>The controller (controller.py, Controller)\<close>

record action_result =
  success :: bool
  action_type :: pyval
  details :: action
  error :: "string option"
  confirmation_required :: bool

text \<open>
  What one call of the controller did, in order: it asked for confirmation, it entered
  the dispatcher \<^verbatim>\<open>_execute_action_internal\<close>, it issued a device call. The trace is
  kept beside the fields of the class so that the results can speak of it.
\<close>

datatype event = ConfirmationRequested | Dispatched string | Device device_call

record controller =
  emergency_stop :: bool
  running :: bool
  action_history :: "action_result list"
  running_apps :: "(pyval \<times> nat) list"
  trace :: "event list"

definition failed_result :: "pyval \<Rightarrow> action \<Rightarrow> string option \<Rightarrow> bool \<Rightarrow> action_result" where
  "failed_result t action msg conf =
     \<lparr> success = False, action_type = t, details = action, error = msg,
       confirmation_required = conf \<rparr>"

definition finished_result :: "string \<Rightarrow> action \<Rightarrow> bool \<Rightarrow> action_result" where
  "finished_result t action ok =
     \<lparr> success = ok, action_type = PStr t, details = action,
       error = (if ok then None else Some ''Action execution failed''),
       confirmation_required = False \<rparr>"

text \<open>
  \<^verbatim>\<open>action[k]\<close>: a missing key raises \<^verbatim>\<open>KeyError\<close>, whose text is the \<^verbatim>\<open>repr\<close> of the key.
  The texts of the other exceptions are the interpreter's and are left empty.
\<close>

definition subscript :: "action \<Rightarrow> string \<Rightarrow> py_error + pyval" where
  "subscript action k = (case map_of action k of None \<Rightarrow> Inl (KeyError k) | Some v \<Rightarrow> Inr v)"

definition error_text :: "py_error \<Rightarrow> string" where
  "error_text e = (case e of KeyError k \<Rightarrow> repr_str k | _ \<Rightarrow> [])"

text \<open>
  The dispatcher. Its result is the boolean of the operation, the device calls and the
  new table of running applications, or the exception that its \<^verbatim>\<open>try\<close> catches, or
  \<open>None\<close> in the final \<^verbatim>\<open>else\<close> for a type without a branch.
\<close>

definition dispatch ::
  "env \<Rightarrow> (pyval \<times> nat) list \<Rightarrow> string \<Rightarrow> action \<Rightarrow>
   (py_error + bool \<times> device_call list \<times> (pyval \<times> nat) list) option" where
  "dispatch e apps t action =
     (if t = ''click'' then
        Some (case subscript action ''x'' of Inl err \<Rightarrow> Inl err | Inr x \<Rightarrow>
             (case subscript action ''y'' of Inl err \<Rightarrow> Inl err | Inr y \<Rightarrow>
                (case click e x y (dict_get action ''button'' (PStr ''left''))
                        (dict_get action ''clicks'' (PInt 1)) of
                   (ok, calls) \<Rightarrow> Inr (ok, calls, apps))))
      else if t = ''type'' then
        Some (case subscript action ''text'' of Inl err \<Rightarrow> Inl err | Inr text \<Rightarrow>
             (case type_text e text (map_of action ''interval'') of
                (ok, calls) \<Rightarrow> Inr (ok, calls, apps)))
      else if t = ''key_press'' then
        Some (case subscript action ''key'' of Inl err \<Rightarrow> Inl err | Inr key \<Rightarrow>
             (case press_key e key (dict_get action ''presses'' (PInt 1)) of
                (ok, calls) \<Rightarrow> Inr (ok, calls, apps)))
      else if t = ''scroll'' then
        Some (case scroll e (dict_get action ''direction'' (PStr ''down''))
                     (dict_get action ''amount'' (PInt 3)) of
                (ok, calls) \<Rightarrow> Inr (ok, calls, apps))
      else if t = ''drag'' then
        Some (case subscript action ''start_x'' of Inl err \<Rightarrow> Inl err | Inr sx \<Rightarrow>
             (case subscript action ''start_y'' of Inl err \<Rightarrow> Inl err | Inr sy \<Rightarrow>
             (case subscript action ''end_x'' of Inl err \<Rightarrow> Inl err | Inr ex \<Rightarrow>
             (case subscript action ''end_y'' of Inl err \<Rightarrow> Inl err | Inr ey \<Rightarrow>
                (case drag e sx sy ex ey (map_of action ''duration'') of
                   (ok, calls) \<Rightarrow> Inr (ok, calls, apps))))))
      else if t = ''move_mouse'' then
        Some (case subscript action ''x'' of Inl err \<Rightarrow> Inl err | Inr x \<Rightarrow>
             (case subscript action ''y'' of Inl err \<Rightarrow> Inl err | Inr y \<Rightarrow>
                (case move_mouse e x y (map_of action ''duration'') of
                   (ok, calls) \<Rightarrow> Inr (ok, calls, apps))))
      else if t = ''launch_app'' then
        Some (case subscript action ''app_name'' of Inl err \<Rightarrow> Inl err | Inr name \<Rightarrow>
                Inr (launch_application e apps name (dict_get action ''app_path'' PNone)))
      else if t = ''close_app'' then
        Some (case subscript action ''app_name'' of Inl err \<Rightarrow> Inl err | Inr name \<Rightarrow>
                Inr (close_application e apps name))
      else if t = ''wait'' then
        Some (case map_of action ''duration'' of
                None \<Rightarrow> Inr (True, [Sleep None], apps)
              | Some d \<Rightarrow>
                  (case as_number d of
                     None \<Rightarrow> Inl TypeError
                   | Some n \<Rightarrow>
                       (if n < 0 then Inl ValueError else Inr (True, [Sleep (Some d)], apps))))
      else None)"

text \<open>
  \<^verbatim>\<open>_execute_action_internal\<close>. It is only called after validation, so the type is a
  string and \<^verbatim>\<open>.lower()\<close> cannot raise; the model carries the lowered type in.
\<close>

definition execute_action_internal ::
  "env \<Rightarrow> controller \<Rightarrow> string \<Rightarrow> action \<Rightarrow> action_result \<times> controller" where
  "execute_action_internal e s t action =
     (let s1 = s\<lparr>trace := trace s @ [Dispatched t]\<rparr> in
      case dispatch e (running_apps s1) t action of
        None \<Rightarrow> (failed_result (PStr t) action (Some (''Unknown action type: '' @ t)) False, s1)
      | Some (Inl err) \<Rightarrow> (failed_result (PStr t) action (Some (error_text err)) False, s1)
      | Some (Inr (ok, calls, apps)) \<Rightarrow>
          (finished_result t action ok,
           s1\<lparr>trace := trace s1 @ map Device calls, running_apps := apps\<rparr>))"

text \<open>
  \<^verbatim>\<open>execute_action\<close>: emergency stop, validation, confirmation, dispatch, history. An
  exception of the validator or of the console prompt is not caught and leaves the call;
  it is returned with the state the controller is left in.
\<close>

definition execute_action ::
  "env \<Rightarrow> controller \<Rightarrow> action \<Rightarrow> py_error \<times> controller + action_result \<times> controller" where
  "execute_action e s action =
     (let shown_type = dict_get action ''type'' (PStr ''unknown'') in
      if emergency_stop s
      then Inr (failed_result shown_type action (Some ''Emergency stop activated'') False, s)
      else
        (case validate_action (safe_mode e) action of
           Inl err \<Rightarrow> Inl (err, s)
         | Inr (is_valid, error_msg, needs_confirmation) \<Rightarrow>
             (if \<not> is_valid then Inr (failed_result shown_type action error_msg False, s)
              else
                (case action_type_lower action of
                   Inl err \<Rightarrow> Inl (err, s)
                 | Inr t \<Rightarrow>
                     (if needs_confirmation then
                        (let s1 = s\<lparr>trace := trace s @ [ConfirmationRequested]\<rparr> in
                         case request_confirmation (confirm_sensitive_actions e) (channel e) of
                           Inl err \<Rightarrow> Inl (err, s1)
                         | Inr approved \<Rightarrow>
                             (if \<not> approved
                              then Inr (failed_result shown_type action
                                          (Some ''User denied confirmation'') True, s1)
                              else (case execute_action_internal e s1 t action of
                                      (result, s2) \<Rightarrow>
                                        Inr (result,
                                             s2\<lparr>action_history := action_history s2 @ [result]\<rparr>))))
                      else (case execute_action_internal e s t action of
                              (result, s2) \<Rightarrow>
                                Inr (result,
                                     s2\<lparr>action_history := action_history s2 @ [result]\<rparr>)))))))"

text \<open>
  The emergency key sets the flag from the listener thread. The controller reads the flag
  at two points, the check at the head of each iteration of a sequence and the check at
  the head of \<^verbatim>\<open>execute_action\<close>. Each action of a sequence therefore comes with the
  surroundings of its call and with two booleans: whether the key was pressed before the
  iteration's check, and whether it was pressed between that check and the call.
\<close>

definition on_emergency_key :: "controller \<Rightarrow> controller" where
  "on_emergency_key s = s\<lparr>emergency_stop := True\<rparr>"


fun execute_action_sequence ::
  "controller \<Rightarrow> (bool \<times> bool \<times> env \<times> action) list \<Rightarrow>
   py_error \<times> controller + action_result list \<times> controller" where
  "execute_action_sequence s [] = Inr ([], s)"
| "execute_action_sequence s ((key_before_check, key_before_call, e, action) # rest) =
     (let s0 = (if key_before_check then on_emergency_key s else s) in
      if emergency_stop s0 then Inr ([], s0)
      else
        (case execute_action e (if key_before_call then on_emergency_key s0 else s0) action of
           Inl err \<Rightarrow> Inl err
         | Inr (result, s1) \<Rightarrow>
             (if \<not> success result \<and> truthy (dict_get action ''stop_on_failure'' (PBool False))
              then Inr ([result], s1)
              else (case execute_action_sequence s1 rest of
                      Inl err \<Rightarrow> Inl err
                    | Inr (results, s2) \<Rightarrow> Inr (result # results, s2)))))"


definition stop :: "controller \<Rightarrow> controller" where
  "stop s = s\<lparr>running := False\<rparr>"




definition state_after :: "py_error \<times> controller + 'a \<times> controller \<Rightarrow> controller" where
  "state_after r = (case r of Inl (err, s') \<Rightarrow> s' | Inr (x, s') \<Rightarrow> s')"



section \<open>The safety monitor (advanced_features.py, SafetyMonitor)\<close>

definition warning_keywords :: "string list" where
  "warning_keywords =
     [''delete'', ''remove'', ''format'', ''rm'', ''del'', ''sudo'', ''admin'', ''password'',
      ''credit card'']"

definition safe_zones :: "string list" where
  "safe_zones = [''desktop'', ''documents'', ''downloads'', ''pictures'']"

text \<open>\<^verbatim>\<open>d.get(k, "")\<close> followed by \<^verbatim>\<open>.lower()\<close>, which raises on a value that is no string.\<close>

definition get_lower :: "action \<Rightarrow> string \<Rightarrow> py_error + string" where
  "get_lower d k =
     (case dict_get d k (PStr []) of PStr s \<Rightarrow> Inr (py_lower s) | _ \<Rightarrow> Inl AttributeError)"

definition is_safe_location :: "pyval \<Rightarrow> py_error + bool" where
  "is_safe_location path =
     (case path of
        PStr p \<Rightarrow> Inr (list_ex (\<lambda>safe_zone. py_in safe_zone (py_lower p)) safe_zones)
      | _ \<Rightarrow> Inl AttributeError)"

definition is_rapid_action :: "action \<Rightarrow> bool" where
  "is_rapid_action action = False"

text \<open>The first warning keyword found in the target, as the loop returns on it.\<close>

definition first_keyword :: "string \<Rightarrow> string option" where
  "first_keyword target = find (\<lambda>keyword. py_in keyword target) warning_keywords"

definition monitor_rate_check :: "action \<Rightarrow> py_error + bool \<times> string" where
  "monitor_rate_check action =
     (if is_rapid_action action then Inr (False, ''Blocked: Too many rapid actions detected'')
      else Inr (True, ''Action approved''))"

definition monitor_validate_action :: "action \<Rightarrow> py_error + bool \<times> string" where
  "monitor_validate_action action =
     (let action_type = dict_get action ''type'' (PStr []) in
      case get_lower action ''target'' of
        Inl err \<Rightarrow> Inl err
      | Inr target \<Rightarrow>
          (case first_keyword target of
             Some keyword \<Rightarrow>
               Inr (False, ''Blocked: Contains dangerous keyword '' @ [CHR 0x27] @ keyword @ [CHR 0x27])
           | None \<Rightarrow>
               (case (if action_type = PStr ''system_command''
                      then (case get_lower action ''command'' of
                              Inl err \<Rightarrow> Inl err
                            | Inr command \<Rightarrow>
                                Inr (list_ex (\<lambda>dangerous. py_in dangerous command)
                                       [''rm -rf'', ''format'', ''del /f'']))
                      else Inr False) of
                  Inl err \<Rightarrow> Inl err
                | Inr True \<Rightarrow> Inr (False, ''Blocked: Dangerous system command'')
                | Inr False \<Rightarrow>
                    (case (if action_type = PStr ''file_operation''
                           then (case get_lower action ''operation'' of
                                   Inl err \<Rightarrow> Inl err
                                 | Inr operation \<Rightarrow>
                                     (if operation \<in> set [''delete'', ''format'']
                                      then (case is_safe_location (dict_get action ''path'' (PStr [])) of
                                              Inl err \<Rightarrow> Inl err
                                            | Inr safe \<Rightarrow> Inr (\<not> safe))
                                      else Inr False))
                           else Inr False) of
                       Inl err \<Rightarrow> Inl err
                     | Inr True \<Rightarrow> Inr (False, ''Blocked: Unsafe file operation in system area'')
                     | Inr False \<Rightarrow> monitor_rate_check action))))"

text \<open>
  The file operations the location check is about: the type is \<^verbatim>\<open>file_operation\<close>, the
  operation is delete or format in any letter case, and the path, a string or absent,
  names none of the safe zones.
\<close>

definition unsafe_file_operation :: "action \<Rightarrow> bool" where
  "unsafe_file_operation action =
     (dict_get action ''type'' (PStr []) = PStr ''file_operation'' \<and>
      (case dict_get action ''operation'' (PStr []) of
         PStr operation \<Rightarrow> py_lower operation \<in> set [''delete'', ''format'']
       | _ \<Rightarrow> False) \<and>
      (case dict_get action ''path'' (PStr []) of
         PStr p \<Rightarrow> \<not> list_ex (\<lambda>safe_zone. py_in safe_zone (py_lower p)) safe_zones
       | _ \<Rightarrow> False))"

section \<open>Perception: text extraction and overall confidence (perceiver.py)\<close>

text \<open>
  One row of the OCR table: the text and the confidence on the scale 0..100 that the OCR
  engine reports.
\<close>

record ocr_row =
  row_text :: string
  row_conf :: rat

record ocr_word =
  word_text :: string
  word_confidence :: rat

record ocr_data =
  ocr_text :: string
  ocr_confidence :: rat
  ocr_words :: "ocr_word list"

definition mean :: "rat list \<Rightarrow> rat" where
  "mean xs = sum_list xs / of_nat (length xs)"

text \<open>
  \<^verbatim>\<open>extract_text\<close>: \<open>None\<close> is an OCR run that raised, which gives the empty result. A
  word is kept when it is not blank and its confidence exceeds the float product
  \<^verbatim>\<open>min_ocr_confidence * 100\<close> (for the default 0.6 exactly 60); the kept confidences
  are divided by 100.
\<close>

definition extract_text :: "rat \<Rightarrow> ocr_row list option \<Rightarrow> ocr_data" where
  "extract_text min_ocr_confidence data =
     (case data of
        None \<Rightarrow> \<lparr> ocr_text = [], ocr_confidence = 0, ocr_words = [] \<rparr>
      | Some rows \<Rightarrow>
          (let kept = filter (\<lambda>r. py_strip (row_text r) \<noteq> [] \<and>
                                  row_conf r >
                                    round_double (round_double min_ocr_confidence * 100)) rows;
               confidences = map (\<lambda>r. row_conf r / 100) kept
           in \<lparr> ocr_text = py_join '' '' (map (\<lambda>r. py_strip (row_text r)) kept),
                ocr_confidence = (if confidences \<noteq> [] then mean confidences else 0),
                ocr_words = map (\<lambda>r. \<lparr> word_text = py_strip (row_text r),
                                         word_confidence = row_conf r / 100 \<rparr>) kept \<rparr>))"

text \<open>The reply of the vision-language model to \<^verbatim>\<open>analyze_screenshot\<close>.\<close>

datatype vlm_reply = VlmContent string | VlmFailed string | VlmRaised string

definition analyze_screenshot :: "bool \<Rightarrow> vlm_reply \<Rightarrow> string" where
  "analyze_screenshot enable_vlm_description reply =
     (if \<not> enable_vlm_description then []
      else (case reply of
              VlmContent c \<Rightarrow> c
            | VlmFailed err \<Rightarrow> ''Vision analysis unavailable: '' @ err
            | VlmRaised err \<Rightarrow> ''Vision analysis error: '' @ err))"

text \<open>
  \<^verbatim>\<open>_calculate_confidence\<close>. Both the OCR confidence and the mean element confidence are
  divided by 100 and capped at 1 before they enter the mean. Every element that
  \<^verbatim>\<open>detect_elements\<close> builds has a confidence, so the default of
  \<^verbatim>\<open>elem.get("confidence", 50)\<close> is never taken.
\<close>

definition calculate_confidence :: "ocr_data \<Rightarrow> ui_element list \<Rightarrow> string \<Rightarrow> rat" where
  "calculate_confidence ocr ui_elements vlm_description =
     (let scores =
            (if ocr_confidence ocr > 0 then [min (ocr_confidence ocr / 100) 1] else []) @
            (if ui_elements \<noteq> [] then [min (mean (map confidence ui_elements) / 100) 1] else []) @
            (if vlm_description \<noteq> [] \<and> \<not> py_startswith vlm_description ''Vision analysis''
             then [8 / 10] else [])
      in if scores \<noteq> [] then mean scores else 0)"

record perceiver_config =
  min_ocr_confidence :: rat
  enable_ui_parsing :: bool
  enable_vlm_description :: bool

record screen_context =
  ctx_ocr_text :: string
  ctx_ui_elements :: "ui_element list"
  ctx_vlm_description :: string
  confidence_score :: rat

text \<open>
  \<^verbatim>\<open>perceive_screen\<close> after a successful capture: what the three analysers saw is given,
  and the context is assembled from their results.
\<close>

definition perceive_screen ::
  "perceiver_config \<Rightarrow> ocr_row list option \<Rightarrow> contour list option \<Rightarrow> vlm_reply \<Rightarrow> screen_context" where
  "perceive_screen cfg rows img reply =
     (let ocr = extract_text (min_ocr_confidence cfg) rows;
          ui_elements = (if enable_ui_parsing cfg then detect_elements img else []);
          vlm_description =
            (if enable_vlm_description cfg then analyze_screenshot (enable_vlm_description cfg) reply
             else [])
      in \<lparr> ctx_ocr_text = ocr_text ocr,
           ctx_ui_elements = ui_elements,
           ctx_vlm_description = vlm_description,
           confidence_score = calculate_confidence ocr ui_elements vlm_description \<rparr>)"

definition default_perceiver_config :: perceiver_config where
  "default_perceiver_config =
     \<lparr> min_ocr_confidence = 6 / 10, enable_ui_parsing = True, enable_vlm_description = True \<rparr>"

section \<open>Task decomposition (real_desktop_agent.py, refactor_user_prompt)\<close>

text \<open>
  The reply of the language model to one \<^verbatim>\<open>generate_text\<close> call; \<open>None\<close> stands for a
  call, or a reading of its reply, that raises.
\<close>

record llm_response =
  llm_success :: bool
  llm_content :: string
  used_simplified_prompt :: bool

definition parse_line :: "string \<Rightarrow> string option" where
  "parse_line line =
     (let stripped = py_strip line in
      if stripped = [] then None
      else if py_isdigit (hd stripped) then
        (let parts = py_split1 stripped ''.'' in
         if length parts > 1 then Some (py_strip (parts ! 1)) else None)
      else if \<not> (py_startswith stripped ''#'' \<or> py_startswith stripped ''-'' \<or>
                  py_startswith stripped ''*'') then Some stripped
      else None)"

definition parse_lines :: "string \<Rightarrow> string list" where
  "parse_lines content = List.map_filter parse_line (py_splitlines content)"

definition meaningful :: "string list \<Rightarrow> bool" where
  "meaningful lines = (lines \<noteq> [] \<and> length (remdups lines) \<ge> 2)"

definition is_complex :: "string \<Rightarrow> bool" where
  "is_complex command =
     (length command > 100 \<or> py_in '','' command \<or> py_in '' and '' command \<or>
      py_in '' then '' command)"

definition secondary_attempt :: "bool \<Rightarrow> llm_response option \<Rightarrow> string list option" where
  "secondary_attempt using_reduced_prompt second =
     (if \<not> using_reduced_prompt then
        (case second of
           None \<Rightarrow> None
         | Some response \<Rightarrow>
             (if llm_success response \<and> meaningful (parse_lines (llm_content response))
              then Some (parse_lines (llm_content response)) else None))
      else None)"

text \<open>The \<^verbatim>\<open>try\<close> block: \<open>Some lines\<close> is its \<^verbatim>\<open>return lines\<close>, \<open>None\<close> falls through.\<close>

definition llm_refactor ::
  "string \<Rightarrow> llm_response option \<Rightarrow> llm_response option \<Rightarrow> string list option" where
  "llm_refactor command first second =
     (case first of
        None \<Rightarrow> None
      | Some response \<Rightarrow>
          (let using_reduced_prompt = \<not> is_complex command in
           if llm_success response then
             (if meaningful (parse_lines (llm_content response))
              then Some (parse_lines (llm_content response))
              else secondary_attempt (using_reduced_prompt \<or> used_simplified_prompt response) second)
           else secondary_attempt using_reduced_prompt second))"

definition typo_fixes :: "(string \<times> string) list" where
  "typo_fixes =
     [(''googel'', ''google''), (''gogle'', ''google''), (''googl'', ''google''),
      (''serch'', ''search''), (''serach'', ''search''), (''sreach'', ''search''),
      (''srch'', ''search''),
      (''webiste'', ''website''), (''websit'', ''website''), (''webste'', ''website''),
      (''facbook'', ''facebook''), (''fb'', ''facebook''), (''faecbook'', ''facebook''),
      (''youutbe'', ''youtube''), (''ytube'', ''youtube''), (''utube'', ''youtube''),
      (''instgram'', ''instagram''), (''insta'', ''instagram''),
      (''tweeter'', ''twitter''), (''twiter'', ''twitter'')]"

definition fix_typos :: "string \<Rightarrow> string" where
  "fix_typos cmd_lower = foldl (\<lambda>c (typo, correction). py_replace c typo correction) cmd_lower typo_fixes"

definition site_matches :: "(string \<times> string) list" where
  "site_matches =
     [(''facebook'', ''facebook.com''), (''twitter'', ''twitter.com''),
      (''youtube'', ''youtube.com''), (''instagram'', ''instagram.com''),
      (''amazon'', ''amazon.com''), (''reddit'', ''reddit.com''),
      (''wikipedia'', ''wikipedia.org''), (''linkedin'', ''linkedin.com''),
      (''github'', ''github.com''), (''netflix'', ''netflix.com'')]"

definition quoted :: "string \<Rightarrow> string" where
  "quoted s = [CHR 0x27] @ s @ [CHR 0x27]"

definition open_steps :: "string \<Rightarrow> string list" where
  "open_steps cmd_lower =
     (if py_in ''open'' cmd_lower then
        (if py_in ''chrome'' cmd_lower \<or> py_in ''browser'' cmd_lower
         then [''Open Google Chrome'', ''Wait for Chrome to load (3 seconds)'']
         else [])
      else [])"

text \<open>The site loop: the first site named after "visit" or "go to" adds its steps and breaks.\<close>

definition site_steps :: "string \<Rightarrow> string list \<Rightarrow> string list \<times> bool" where
  "site_steps cmd_lower steps =
     (case find (\<lambda>(site_keyword, site_domain).
                   py_in (''visit '' @ site_keyword) cmd_lower \<or>
                   py_in (''go to '' @ site_keyword) cmd_lower) site_matches of
        None \<Rightarrow> (steps, False)
      | Some (site_keyword, site_domain) \<Rightarrow>
          ((if \<not> list_ex (\<lambda>s. s \<in> set steps) [''Open Google Chrome'', ''Wait for Chrome'']
            then steps @ [''Open Google Chrome'', ''Wait for Chrome to load (3 seconds)'']
            else steps) @
           [''Focus on the address bar (press Ctrl+L)'',
            ''Type '' @ quoted site_domain @ '' in the address bar'',
            ''Press Enter to navigate'',
            ''Wait for '' @ site_keyword @ '' to load (3 seconds)''],
           True))"

definition search_steps ::
  "(string \<Rightarrow> string) \<Rightarrow> string \<Rightarrow> string \<Rightarrow> bool \<Rightarrow> string list \<Rightarrow> string list" where
  "search_steps extract_search_term command cmd_lower direct_site_visit steps =
     (if \<not> direct_site_visit \<and>
         (py_in ''search'' cmd_lower \<or> py_in ''find'' cmd_lower \<or> py_in ''look up'' cmd_lower)
      then
        (let search_term = extract_search_term command in
         (if \<not> list_ex (\<lambda>s. s \<in> set steps) [''Focus on the address bar'', ''press Ctrl+L'']
          then steps @ [''Focus on the address bar (press Ctrl+L)'']
          else steps) @
         [''Type '' @ quoted search_term @ '' in the search bar'',
          ''Press Enter to search'',
          ''Wait for search results to load (3 seconds)''])
      else steps)"

definition result_steps :: "string \<Rightarrow> string list \<Rightarrow> string list" where
  "result_steps cmd_lower steps =
     (if list_ex (\<lambda>term. py_in term cmd_lower)
           [''enter'', ''visit'', ''go to'', ''click'', ''access'', ''open website'', ''first result'']
      then
        (case find (\<lambda>site. py_in site cmd_lower)
                [''facebook'', ''twitter'', ''youtube'', ''instagram'', ''amazon'', ''reddit'',
                 ''github''] of
           Some site \<Rightarrow>
             steps @ [''Look for and click on the '' @ site @ '' result'',
                      ''Wait for '' @ site @ '' to load (3 seconds)'']
         | None \<Rightarrow>
             (if list_ex (\<lambda>term. py_in term cmd_lower) [''first'', ''top'', ''result'', ''website'']
              then steps @ [''Click on the first search result'',
                            ''Wait for the page to load (3 seconds)'']
              else steps))
      else steps)"

text \<open>The last resort when no pattern produced a step.\<close>

definition simple_split :: "string \<Rightarrow> string \<Rightarrow> string list" where
  "simple_split command cmd_lower =
     (if py_in '' and '' cmd_lower then
        map py_strip (filter (\<lambda>c. py_strip c \<noteq> []) (py_split cmd_lower '' and ''))
      else if py_in '' then '' cmd_lower then
        map py_strip (filter (\<lambda>c. py_strip c \<noteq> []) (py_split cmd_lower '' then ''))
      else [command])"

definition rule_based :: "(string \<Rightarrow> string) \<Rightarrow> string \<Rightarrow> string list" where
  "rule_based extract_search_term command =
     (let cmd_lower = fix_typos (py_lower command);
          steps = open_steps cmd_lower;
          (steps, direct_site_visit) = site_steps cmd_lower steps;
          steps = search_steps extract_search_term command cmd_lower direct_site_visit steps;
          steps = result_steps cmd_lower steps
      in if steps = [] then simple_split command cmd_lower else steps)"

text \<open>
  \<^verbatim>\<open>refactor_user_prompt\<close>. Its parameters besides the command are what it obtains from
  outside: \<^verbatim>\<open>extract_search_term\<close>, which may itself ask the language model and always
  returns a string, and the replies to the primary and the secondary prompt.
\<close>

definition refactor_user_prompt ::
  "(string \<Rightarrow> string) \<Rightarrow> llm_response option \<Rightarrow> llm_response option \<Rightarrow> string \<Rightarrow> string list" where
  "refactor_user_prompt extract_search_term first second command =
     (case llm_refactor command first second of
        Some lines \<Rightarrow> lines
      | None \<Rightarrow> rule_based extract_search_term command)"

text \<open>A command as \<^verbatim>\<open>get_user_prompt\<close> hands it on: stripped, hence without leading blank.\<close>

definition no_leading_blank :: "string \<Rightarrow> bool" where
  "no_leading_blank command = (case command of [] \<Rightarrow> True | c # cs \<Rightarrow> \<not> py_isspace c)"

section \<open>Task execution (real_desktop_agent.py, execute_user_command; utils/task_tracker.py)\<close>

text \<open>
  The tracker's two lists of \<open>(step index, step text)\<close>, the two counters of the engine,
  and the calls of the step handler that were made, as \<open>(step number, retry count)\<close>.
\<close>

record run_state =
  successful_steps :: nat
  failed_steps :: nat
  completed_log :: "(nat \<times> string) list"
  failed_log :: "(nat \<times> string) list"
  handler_calls :: "(nat \<times> nat) list"

record summary =
  sum_success :: bool
  sum_total_steps :: nat
  sum_completed_steps :: nat
  sum_failed_steps :: nat
  sum_completion_rate :: rat

definition complete_task :: "nat \<Rightarrow> run_state \<Rightarrow> bool \<Rightarrow> summary" where
  "complete_task total_steps st ok =
     \<lparr> sum_success = ok,
       sum_total_steps = total_steps,
       sum_completed_steps = length (completed_log st),
       sum_failed_steps = length (failed_log st),
       sum_completion_rate =
         (if total_steps > 0 then of_nat (length (completed_log st)) / of_nat total_steps else 0) \<rparr>"

definition max_retries :: nat where
  "max_retries = 2"

text \<open>
  The retry loop of one step. \<open>attempt k\<close> is the result of the handler when it is called
  with retry count \<open>k\<close>. The loop returns whether the step succeeded and the retry counts
  at which the handler was called. The engine enters the loop with retry count 0, so the
  loop condition holds on entry and the last branch is never taken from there.
\<close>

function retry_loop :: "(nat \<Rightarrow> bool) \<Rightarrow> nat \<Rightarrow> bool \<times> nat list" where
  "retry_loop attempt retry_count =
     (if retry_count \<le> max_retries then
        (if attempt retry_count then (True, [retry_count])
         else if retry_count + 1 > max_retries then (False, [retry_count])
         else (case retry_loop attempt (retry_count + 1) of
                 (ok, calls) \<Rightarrow> (ok, retry_count # calls)))
      else (False, []))"
  by pat_completeness auto
termination
  by (relation "measure (\<lambda>(attempt, retry_count). Suc max_retries - retry_count)") auto

declare retry_loop.simps [simp del]

definition critical :: "nat \<Rightarrow> nat \<Rightarrow> bool" where
  "critical idx total_steps = (idx \<le> 2 \<or> int idx \<ge> int total_steps - 1)"

text \<open>The critical positions as the specification and the comment in the code give them.\<close>

definition spec_critical :: "nat \<Rightarrow> nat \<Rightarrow> bool" where
  "spec_critical idx total_steps = (idx = 1 \<or> idx = 2 \<or> idx = total_steps)"

text \<open>
  The loop over the steps, from step number \<open>idx\<close> on. The first component of the result
  is \<open>True\<close> when a critical failure made the engine return at once.
\<close>

fun run_steps ::
  "(nat \<Rightarrow> nat \<Rightarrow> bool) \<Rightarrow> nat \<Rightarrow> nat \<Rightarrow> string list \<Rightarrow> run_state \<Rightarrow> bool \<times> run_state" where
  "run_steps handler total_steps idx [] st = (False, st)"
| "run_steps handler total_steps idx (step # rest) st =
     (case retry_loop (handler idx) 0 of
        (True, calls) \<Rightarrow>
          run_steps handler total_steps (idx + 1) rest
            (st\<lparr>successful_steps := successful_steps st + 1,
                completed_log := completed_log st @ [(idx - 1, step)],
                handler_calls := handler_calls st @ map (Pair idx) calls\<rparr>)
      | (False, calls) \<Rightarrow>
          (let st' = st\<lparr>failed_steps := failed_steps st + 1,
                        failed_log := failed_log st @ [(idx - 1, step)],
                        handler_calls := handler_calls st @ map (Pair idx) calls\<rparr>
           in if critical idx total_steps then (True, st')
              else run_steps handler total_steps (idx + 1) rest st'))"

record outcome =
  returned :: bool
  final_summary :: "summary option"
  final_state :: run_state

definition initial_run_state :: run_state where
  "initial_run_state =
     \<lparr> successful_steps = 0, failed_steps = 0, completed_log = [], failed_log = [],
       handler_calls = [] \<rparr>"

text \<open>\<^verbatim>\<open>execute_user_command\<close> from the decomposed steps on.\<close>

definition execute_steps :: "(nat \<Rightarrow> nat \<Rightarrow> bool) \<Rightarrow> string list \<Rightarrow> outcome" where
  "execute_steps handler steps =
     (if steps = [] then
        \<lparr> returned = False, final_summary = None, final_state = initial_run_state \<rparr>
      else
        (let total_steps = length steps in
         case run_steps handler total_steps 1 steps initial_run_state of
           (True, st) \<Rightarrow>
             \<lparr> returned = False, final_summary = Some (complete_task total_steps st False),
               final_state = st \<rparr>
         | (False, st) \<Rightarrow>
             (if successful_steps st = total_steps then
                \<lparr> returned = True, final_summary = Some (complete_task total_steps st True),
                  final_state = st \<rparr>
              else
                (let completion_rate = (of_nat (successful_steps st) / of_nat total_steps :: rat) in
                 \<lparr> returned = (completion_rate \<ge> 75 / 100),
                   final_summary = Some (complete_task total_steps st (completion_rate \<ge> 75 / 100)),
                   final_state = st \<rparr>))))"

definition execute_user_command ::
  "(string \<Rightarrow> string) \<Rightarrow> llm_response option \<Rightarrow> llm_response option \<Rightarrow>
   (nat \<Rightarrow> nat \<Rightarrow> bool) \<Rightarrow> string \<Rightarrow> outcome" where
  "execute_user_command extract_search_term first second handler command =
     execute_steps handler (refactor_user_prompt extract_search_term first second command)"

section \<open>Concrete surroundings and inputs\<close>

text \<open>
  The default configuration on a 1920 x 1080 Linux desktop with scaling factor 1.0
  (coordinates are scaled by \<open>scale_by_one\<close>), a user who answers yes, and a controller
  as \<^verbatim>\<open>__init__\<close> leaves it.
\<close>

definition desk_env :: env where
  "desk_env =
     \<lparr> safe_mode = True, confirm_sensitive_actions = True, channel = AskYesNo True,
       screen_width = 1920, screen_height = 1080, scaled = scale_by_one, device_ok = True,
       host = Linux, xdotool_ok = True, popen_pid = Some 4242 \<rparr>"

text \<open>The same desktop with a user who answers no, and without tkinter installed.\<close>

definition denying_env :: env where
  "denying_env = desk_env\<lparr>channel := AskYesNo False\<rparr>"

definition headless_env :: env where
  "headless_env = desk_env\<lparr>channel := TkinterSpecMissing\<rparr>"

text \<open>The same desktop where the dialog cannot be imported and the console is closed.\<close>

definition closed_console_env :: env where
  "closed_console_env = desk_env\<lparr>channel := MessageboxImportError ConsoleRaises\<rparr>"

definition fresh_controller :: controller where
  "fresh_controller =
     \<lparr> emergency_stop = False, running = False, action_history = [], running_apps = [],
       trace = [] \<rparr>"



definition remove_click_action :: action where
  "remove_click_action =
     [(''type'', PStr ''click''), (''x'', PInt 1), (''y'', PInt 1), (''target'', PStr ''remove'')]"

definition delete_click_action :: action where
  "delete_click_action =
     [(''type'', PStr ''click''), (''x'', PInt 1), (''y'', PInt 1),
      (''target'', PStr ''Delete file'')]"

definition passwd_delete_action :: action where
  "passwd_delete_action =
     [(''type'', PStr ''file_operation''), (''operation'', PStr ''delete''),
      (''path'', PStr ''/etc/passwd'')]"

definition far_drag_action :: action where
  "far_drag_action =
     [(''type'', PStr ''drag''), (''start_x'', PInt 0), (''start_y'', PInt 0),
      (''end_x'', PInt 100000), (''end_y'', PInt 100000)]"

definition wait_action :: action where
  "wait_action = [(''type'', PStr ''wait''), (''duration'', PInt 1)]"

definition sudo_type_action :: action where
  "sudo_type_action = [(''type'', PStr ''type''), (''text'', PStr ''sudo reboot'')]"

text \<open>A step handler that fails every attempt at step 3 and succeeds everywhere else.\<close>

definition third_step_fails :: "nat \<Rightarrow> nat \<Rightarrow> bool" where
  "third_step_fails idx retry_count = (idx \<noteq> 3)"

text \<open>The search term that \<^verbatim>\<open>ai_extract_search_term\<close> falls back to.\<close>

definition default_search_term :: "string \<Rightarrow> string" where
  "default_search_term command = ''facebook''"

text \<open>
  Four contours: one too small (its zero height is never divided by), a button, a panel
  and one that no rule matches.
\<close>

definition sample_contours :: "contour list" where
  "sample_contours =
     [\<lparr> c_area = 50, c_x = 0, c_y = 0, c_w = 10, c_h = 0 \<rparr>,
      \<lparr> c_area = 2000, c_x = 10, c_y = 20, c_w = 100, c_h = 30 \<rparr>,
      \<lparr> c_area = 60000, c_x = 0, c_y = 100, c_w = 300, c_h = 250 \<rparr>,
      \<lparr> c_area = 150, c_x = 5, c_y = 5, c_w = 20, c_h = 10 \<rparr>]"

definition ok_xx_rows :: "ocr_row list" where
  "ok_xx_rows = [\<lparr> row_text = ''ok'', row_conf = 90 \<rparr>, \<lparr> row_text = ''xx'', row_conf = 30 \<rparr>]"

section \<open>Perception: classification results\<close>

lemma classify_element_spec:
  "classify_element area aspect width height = classify_spec area aspect width height"
  by (simp add: classify_element_def classify_spec_def button_rule_def input_rule_def
      icon_rule_def panel_rule_def)

lemma collect_elements_classified:
  "collect_elements cs = Inr es \<Longrightarrow> list_all classified_region es"
proof (induction cs arbitrary: es)
  case Nil
  then show ?case by simp
next
  case (Cons c cs)
  show ?case
  proof (cases "c_area c < 100")
    case True
    with Cons show ?thesis by simp
  next
    case big: False
    show ?thesis
    proof (cases "c_h c = 0")
      case True
      with big Cons.prems show ?thesis by simp
    next
      case nz: False
      show ?thesis
      proof (cases "classify_element (c_area c) (of_int (c_w c) / of_int (c_h c)) (c_w c) (c_h c)")
        case None
        with big nz Cons show ?thesis by simp
      next
        case (Some t)
        with big nz Cons.prems obtain es' where
          es': "collect_elements cs = Inr es'" and es: "es = make_element t c # es'"
          by (auto split: sum.splits)
        have "classified_region (make_element t c)"
          using big Some
          by (simp add: classified_region_def make_element_def classify_element_spec)
        with Cons.IH [OF es'] es show ?thesis by simp
      qed
    qed
  qed
qed

lemma detect_elements_classified: "list_all classified_region (detect_elements img)"
proof (cases img)
  case None
  then show ?thesis by (simp add: detect_elements_def)
next
  case (Some cs)
  show ?thesis
  proof (cases "collect_elements cs")
    case (Inl e)
    with Some show ?thesis by (simp add: detect_elements_def)
  next
    case (Inr es)
    from collect_elements_classified [OF Inr]
    have "\<forall>e \<in> set (take 50 (sort_key (\<lambda>x. - confidence x) es)). classified_region e"
      by (auto simp: list_all_iff dest: in_set_takeD)
    with Some Inr show ?thesis by (simp add: detect_elements_def list_all_iff)
  qed
qed

lemma detect_elements_sorted:
  "sorted (map (\<lambda>x. - confidence x) (detect_elements img))"
proof -
  have "sorted (take 50 (map (\<lambda>x. - confidence x) (sort_key (\<lambda>x. - confidence x) es)))"
    for es :: "ui_element list"
    by (rule sorted_wrt_take) simp
  then have *: "sorted (map (\<lambda>x. - confidence x) (take 50 (sort_key (\<lambda>x. - confidence x) es)))"
    for es :: "ui_element list"
    by (simp only: take_map)
  show ?thesis
  proof (cases img)
    case None
    then show ?thesis by (simp add: detect_elements_def)
  next
    case (Some cs)
    then show ?thesis
      by (cases "collect_elements cs") (simp_all add: detect_elements_def *)
  qed
qed

lemma detect_elements_length: "length (detect_elements img) \<le> 50"
  by (simp add: detect_elements_def split: option.splits sum.splits)

lemma collect_elements_eq:
  "collect_elements cs =
     (if list_ex division_fails cs then Inl ZeroDivisionError
      else Inr (List.map_filter spec_element cs))"
proof (induction cs)
  case Nil
  then show ?case by (simp add: List.map_filter_simps)
next
  case (Cons c cs)
  show ?case
  proof (cases "c_area c < 100")
    case True
    then have "spec_element c = None" and "\<not> division_fails c"
      by (simp_all add: spec_element_def division_fails_def)
    with True Cons show ?thesis
      by (simp add: List.map_filter_simps)
  next
    case big: False
    show ?thesis
    proof (cases "c_h c = 0")
      case True
      with big have "division_fails c"
        by (simp add: division_fails_def)
      with big True show ?thesis by simp
    next
      case False
      with big have nf: "\<not> division_fails c"
        by (simp add: division_fails_def)
      show ?thesis
      proof (cases "classify_spec (c_area c) (of_int (c_w c) / of_int (c_h c)) (c_w c) (c_h c)")
        case None
        with big have "spec_element c = None"
          by (simp add: spec_element_def)
        with None big False nf Cons show ?thesis
          by (simp add: List.map_filter_simps classify_element_spec)
      next
        case (Some t)
        with big have "spec_element c = Some (make_element t c)"
          by (simp add: spec_element_def)
        with Some big False nf Cons show ?thesis
          by (simp add: List.map_filter_simps classify_element_spec)
      qed
    qed
  qed
qed

lemma detect_elements_eq:
  "detect_elements (Some cs) =
     (if list_ex division_fails cs then []
      else take 50 (sort_key (\<lambda>x. - confidence x) (List.map_filter spec_element cs)))"
  by (simp add: detect_elements_def collect_elements_eq)

lemma detect_elements_all_returned:
  assumes "\<not> list_ex division_fails cs"
    and "length (List.map_filter spec_element cs) \<le> 50"
  shows "set (detect_elements (Some cs)) = {e. \<exists>c \<in> set cs. spec_element c = Some e}"
proof -
  have "set (List.map_filter f xs) = {e. \<exists>c \<in> set xs. f c = Some e}"
    for f :: "contour \<Rightarrow> ui_element option" and xs
    by (induction xs) (auto split: option.splits)
  then have "set (List.map_filter spec_element cs)
               = {e. \<exists>c \<in> set cs. spec_element c = Some e}" .
  with assms show ?thesis
    by (simp add: detect_elements_eq)
qed

text \<open>
  C8. Classification is the first-match-wins chain of the four rules over
  \<open>(area, aspect_ratio, width, height)\<close>. \<^verbatim>\<open>detect_elements\<close> returns nothing for an
  unreadable image or when the division \<^verbatim>\<open>w / h\<close> fails; otherwise it returns exactly the
  elements of the input regions, discarding every region of area below 100 and every
  region that no rule matches, giving each other region the type of the first matching
  rule and the confidence \<open>min(1, area / 10000)\<close>, ordered by confidence, highest first
  (regions of equal confidence in the order found), and cut to the first 50. When there
  are at most 50 such elements every one of them is returned.
\<close>

theorem detect_elements_classification:
  "classify_element area aspect width height = classify_spec area aspect width height
   \<and> detect_elements None = []
   \<and> detect_elements (Some cs) =
       (if list_ex division_fails cs then []
        else take 50 (sort_key (\<lambda>x. - confidence x) (List.map_filter spec_element cs)))
   \<and> (\<not> list_ex division_fails cs \<and> length (List.map_filter spec_element cs) \<le> 50
      \<longrightarrow> set (detect_elements (Some cs)) = {e. \<exists>c \<in> set cs. spec_element c = Some e})
   \<and> list_all classified_region (detect_elements img)
   \<and> sorted (map (\<lambda>x. - confidence x) (detect_elements img))
   \<and> length (detect_elements img) \<le> 50"
  using classify_element_spec detect_elements_eq detect_elements_all_returned
    detect_elements_classified detect_elements_sorted detect_elements_length
  by (simp add: detect_elements_def)

theorem detect_elements_classification_witness:
  "\<not> list_ex division_fails sample_contours
   \<and> length (List.map_filter spec_element sample_contours) \<le> 50
   \<and> set (detect_elements (Some sample_contours))
       = {e. \<exists>c \<in> set sample_contours. spec_element c = Some e}
   \<and> detect_elements (Some sample_contours) =
       [\<lparr> el_type = ''panel'', bbox_x = 0, bbox_y = 100, bbox_width = 300, bbox_height = 250,
          center_x = 150, center_y = 225, el_area = 60000, confidence = 1 \<rparr>,
        \<lparr> el_type = ''button'', bbox_x = 10, bbox_y = 20, bbox_width = 100, bbox_height = 30,
          center_x = 60, center_y = 35, el_area = 2000, confidence = 1 / 5 \<rparr>]"
proof -
  have h1: "\<not> list_ex division_fails sample_contours"
    by code_simp
  have h2: "length (List.map_filter spec_element sample_contours) \<le> 50"
    by code_simp
  note main = detect_elements_classification [where cs = sample_contours]
  from main h1 h2
  have m: "set (detect_elements (Some sample_contours))
             = {e. \<exists>c \<in> set sample_contours. spec_element c = Some e}"
    by blast
  from main h1
  have "detect_elements (Some sample_contours) =
          take 50 (sort_key (\<lambda>x. - confidence x) (List.map_filter spec_element sample_contours))"
    by simp
  also have "\<dots> =
       [\<lparr> el_type = ''panel'', bbox_x = 0, bbox_y = 100, bbox_width = 300, bbox_height = 250,
          center_x = 150, center_y = 225, el_area = 60000, confidence = 1 \<rparr>,
        \<lparr> el_type = ''button'', bbox_x = 10, bbox_y = 20, bbox_width = 100, bbox_height = 30,
          center_x = 60, center_y = 35, el_area = 2000, confidence = 1 / 5 \<rparr>]"
    by code_simp
  finally have v: "detect_elements (Some sample_contours) =
       [\<lparr> el_type = ''panel'', bbox_x = 0, bbox_y = 100, bbox_width = 300, bbox_height = 250,
          center_x = 150, center_y = 225, el_area = 60000, confidence = 1 \<rparr>,
        \<lparr> el_type = ''button'', bbox_x = 10, bbox_y = 20, bbox_width = 100, bbox_height = 30,
          center_x = 60, center_y = 35, el_area = 2000, confidence = 1 / 5 \<rparr>]" .
  show ?thesis
    by (rule conjI [OF h1 conjI [OF h2 conjI [OF m v]]])
qed

section \<open>Action validation results\<close>

lemma scan_keywords_iff:
  "scan_keywords ks action_text b = (b \<or> (\<exists>k \<in> set ks. py_in k action_text))"
  by (induction ks) auto

text \<open>
  C2, as the claim states it, fails: a click whose target is "remove" contains the
  keyword "remove" of the claim's list, the validator accepts it, and it reports that no
  confirmation is required. The validator's list has neither "remove" nor "rm" nor "del".
\<close>

theorem remove_keyword_unconfirmed:
  "validate_action True remove_click_action = Inr (True, None, False)
   \<and> py_in ''remove'' (py_lower (str_dict remove_click_action))
   \<and> ''remove'' \<in> set spec_sensitive_keywords
   \<and> ''remove'' \<notin> set SENSITIVE_KEYWORDS"
proof -
  have "validate_action True remove_click_action = Inr (True, None, False)"
    by code_simp
  moreover have "py_in ''remove'' (py_lower (str_dict remove_click_action))"
    by code_simp
  moreover have "''remove'' \<in> set spec_sensitive_keywords"
    by (simp add: spec_sensitive_keywords_def)
  moreover have "''remove'' \<notin> set SENSITIVE_KEYWORDS"
    by (simp add: SENSITIVE_KEYWORDS_def)
  ultimately show ?thesis by blast
qed

text \<open>
  C2, amended. For every action that the validator accepts, of a supported type with
  safety level \<open>level\<close>, \<^verbatim>\<open>requires_confirmation\<close> is true if and only if the level is at
  least 3, or safe mode is off, or the lower-cased text of the whole action dictionary
  contains one of the eleven keywords of \<^verbatim>\<open>SENSITIVE_KEYWORDS\<close> (password, credit card,
  delete, format, sudo, admin, system32, registry, "rm -rf", "del /f", "format c:"). A
  keyword match therefore forces confirmation at level 0 too. An action rejected for a
  missing parameter reports no confirmation requirement.
\<close>

theorem validate_action_confirmation:
  assumes "validate_action sm a = Inr (True, msg, rc)"
    and "action_type_lower a = Inr t"
    and "map_of ACTION_SAFETY_LEVELS t = Some level"
  shows "rc = (level \<ge> 3 \<or> \<not> sm \<or>
               (\<exists>k \<in> set SENSITIVE_KEYWORDS. py_in k (py_lower (str_dict a))))"
  using assms
  by (auto simp: validate_action_def scan_keywords_iff Let_def split: if_splits)

theorem validate_action_confirmation_witness:
  "validate_action True delete_click_action = Inr (True, None, True)
   \<and> action_type_lower delete_click_action = Inr ''click''
   \<and> map_of ACTION_SAFETY_LEVELS ''click'' = Some 0
   \<and> (True = ((0::int) \<ge> 3 \<or> \<not> True \<or>
         (\<exists>k \<in> set SENSITIVE_KEYWORDS. py_in k (py_lower (str_dict delete_click_action)))))"
proof -
  have h1: "validate_action True delete_click_action = Inr (True, None, True)"
    by code_simp
  have h2: "action_type_lower delete_click_action = Inr ''click''"
    by code_simp
  have h3: "map_of ACTION_SAFETY_LEVELS ''click'' = Some 0"
    by (simp add: ACTION_SAFETY_LEVELS_def)
  from validate_action_confirmation [OF h1 h2 h3] h1 h2 h3 show ?thesis by blast
qed

section \<open>Emergency stop results\<close>

lemma execute_action_stopped:
  "emergency_stop s \<Longrightarrow>
   execute_action e s a =
     Inr (failed_result (dict_get a ''type'' (PStr ''unknown'')) a
            (Some ''Emergency stop activated'') False, s)"
  by (simp add: execute_action_def)

lemma sequence_stopped:
  "emergency_stop s \<Longrightarrow> execute_action_sequence s steps = Inr ([], s)"
  by (cases steps) (auto simp: on_emergency_key_def)


lemma key_before_call:
  "trace (state_after (execute_action_sequence s ((b, True, e, a) # rest))) = trace s
   \<and> emergency_stop (state_after (execute_action_sequence s ((b, True, e, a) # rest)))"
proof (cases "b \<or> emergency_stop s")
  case True
  then show ?thesis
    by (auto simp: on_emergency_key_def state_after_def)
next
  case False
  have stopped: "emergency_stop (on_emergency_key s)"
    by (simp add: on_emergency_key_def)
  from False show ?thesis
    by (simp add: execute_action_stopped [OF stopped] sequence_stopped [OF stopped]
        failed_result_def state_after_def)
       (simp add: on_emergency_key_def)
qed





section \<open>Unlisted action types\<close>

text \<open>
  C10. The dispatcher has a branch for each of \<^verbatim>\<open>move_mouse\<close>, \<^verbatim>\<open>launch_app\<close>,
  \<^verbatim>\<open>close_app\<close> and \<^verbatim>\<open>wait\<close>, but the safety-level table lists none of them: every
  \<^verbatim>\<open>execute_action\<close> call with such a type (in any letter case) returns a failed result
  and leaves the controller as it was, so the dispatcher is not entered and nothing is
  performed. The error is "Unsupported action type: ..." unless the emergency stop, which
  is checked first, is set.
\<close>

theorem unlisted_types_rejected:
  assumes "action_type_lower a = Inr t"
    and "t \<in> set [''move_mouse'', ''launch_app'', ''close_app'', ''wait'']"
  shows "dispatch e apps t a \<noteq> None
     \<and> map_of ACTION_SAFETY_LEVELS t = None
     \<and> execute_action e s a =
         Inr (failed_result (dict_get a ''type'' (PStr ''unknown'')) a
                (Some (if emergency_stop s then ''Emergency stop activated''
                       else ''Unsupported action type: '' @ t)) False, s)"
proof -
  from assms(2) have nolevel: "map_of ACTION_SAFETY_LEVELS t = None"
    by (auto simp: ACTION_SAFETY_LEVELS_def)
  from assms(2) have branch: "dispatch e apps t a \<noteq> None"
    by (auto simp: dispatch_def)
  have "validate_action (safe_mode e) a =
          Inr (False, Some (''Unsupported action type: '' @ t), False)"
    using assms(1) nolevel by (simp add: validate_action_def)
  with nolevel branch show ?thesis
    by (simp add: execute_action_def)
qed

theorem unlisted_types_rejected_witness:
  "action_type_lower wait_action = Inr ''wait''
   \<and> ''wait'' \<in> set [''move_mouse'', ''launch_app'', ''close_app'', ''wait'']
   \<and> (dispatch desk_env [] ''wait'' wait_action \<noteq> None
     \<and> map_of ACTION_SAFETY_LEVELS ''wait'' = None
     \<and> execute_action desk_env fresh_controller wait_action =
         Inr (failed_result (dict_get wait_action ''type'' (PStr ''unknown'')) wait_action
                (Some (if emergency_stop fresh_controller then ''Emergency stop activated''
                       else ''Unsupported action type: '' @ ''wait'')) False, fresh_controller))"
proof -
  have h1: "action_type_lower wait_action = Inr ''wait''"
    by code_simp
  have h2: "''wait'' \<in> set [''move_mouse'', ''launch_app'', ''close_app'', ''wait'']"
    by simp
  show ?thesis
    by (rule conjI [OF h1 conjI [OF h2 unlisted_types_rejected [OF h1 h2]]])
qed

section \<open>The confirmation gate: results\<close>

text \<open>
  C4, as the claim states it, fails: with the confirm-sensitive-actions flag on and no
  tkinter installed, the gate approves, and the gated action (typing "sudo reboot") is
  executed.
\<close>

theorem missing_tkinter_approves:
  "request_confirmation True TkinterSpecMissing = Inr True
   \<and> validate_action True sudo_type_action = Inr (True, None, True)
   \<and> trace (state_after (execute_action headless_env
              fresh_controller sudo_type_action))
       = [ConfirmationRequested, Dispatched ''type'', Device (XdotoolType ''sudo reboot'')]"
proof -
  have "request_confirmation True TkinterSpecMissing = Inr True"
    by (simp add: request_confirmation_def)
  moreover have "validate_action True sudo_type_action = Inr (True, None, True)"
    by code_simp
  moreover have
    "trace (state_after (execute_action headless_env
              fresh_controller sudo_type_action))
       = [ConfirmationRequested, Dispatched ''type'', Device (XdotoolType ''sudo reboot'')]"
    by code_simp
  ultimately show ?thesis by blast
qed

text \<open>
  C4, amended. The gate approves every request when the confirm-sensitive-actions flag
  is off. With the flag on: when tkinter is not installed it approves; when the dialog
  is shown the outcome is the user's answer; when importing the dialog fails the console
  is asked and the outcome is approval exactly for the answers y and yes (blanks and
  letter case ignored); an exception of the console prompt itself is not caught and
  leaves the gate without an outcome; any other exception inside the gate's \<^verbatim>\<open>try\<close>
  gives Denied. When the outcome for an action that needs confirmation is Denied,
  \<^verbatim>\<open>execute_action\<close> returns a failed result with \<^verbatim>\<open>confirmation_required\<close> set; when the
  gate is left by an exception, so is \<^verbatim>\<open>execute_action\<close>. In both cases the dispatcher
  is not entered.
\<close>

theorem confirmation_gate_outcomes:
  "request_confirmation False ch = Inr True
   \<and> request_confirmation True TkinterSpecMissing = Inr True
   \<and> request_confirmation True (AskYesNo answer) = Inr answer
   \<and> request_confirmation True (MessageboxImportError (ConsoleReply r)) =
       Inr (py_lower (py_strip r) = ''y'' \<or> py_lower (py_strip r) = ''yes'')
   \<and> request_confirmation True (MessageboxImportError ConsoleRaises) = Inl EOFError
   \<and> request_confirmation True OtherException = Inr False
   \<and> (\<not> emergency_stop s \<and> validate_action (safe_mode e) a = Inr (True, m, True)
        \<and> request_confirmation (confirm_sensitive_actions e) (channel e) = Inr False
      \<longrightarrow> execute_action e s a =
            Inr (failed_result (dict_get a ''type'' (PStr ''unknown'')) a
                   (Some ''User denied confirmation'') True,
                 s\<lparr>trace := trace s @ [ConfirmationRequested]\<rparr>))
   \<and> (\<not> emergency_stop sr \<and> validate_action (safe_mode er) ar = Inr (True, mr, True)
        \<and> request_confirmation (confirm_sensitive_actions er) (channel er) = Inl err
      \<longrightarrow> execute_action er sr ar =
            Inl (err, sr\<lparr>trace := trace sr @ [ConfirmationRequested]\<rparr>))"
  by (auto simp: request_confirmation_def execute_action_def validate_action_def
      split: sum.splits option.splits if_splits)

theorem confirmation_gate_outcomes_witness:
  "(\<not> emergency_stop fresh_controller
    \<and> validate_action (safe_mode denying_env) sudo_type_action = Inr (True, None, True)
    \<and> request_confirmation (confirm_sensitive_actions denying_env) (channel denying_env)
        = Inr False)
   \<and> execute_action denying_env fresh_controller sudo_type_action =
       Inr (failed_result (dict_get sudo_type_action ''type'' (PStr ''unknown'')) sudo_type_action
              (Some ''User denied confirmation'') True,
            fresh_controller\<lparr>trace := trace fresh_controller @ [ConfirmationRequested]\<rparr>)
   \<and> (\<not> emergency_stop fresh_controller
    \<and> validate_action (safe_mode closed_console_env) sudo_type_action = Inr (True, None, True)
    \<and> request_confirmation (confirm_sensitive_actions closed_console_env)
        (channel closed_console_env) = Inl EOFError)
   \<and> execute_action closed_console_env fresh_controller sudo_type_action =
       Inl (EOFError, fresh_controller\<lparr>trace := trace fresh_controller @ [ConfirmationRequested]\<rparr>)"
proof -
  have h1: "\<not> emergency_stop fresh_controller"
    by (simp add: fresh_controller_def)
  have h2: "validate_action (safe_mode denying_env) sudo_type_action = Inr (True, None, True)"
    by code_simp
  have h3: "request_confirmation (confirm_sensitive_actions denying_env) (channel denying_env)
              = Inr False"
    by (simp add: request_confirmation_def desk_env_def denying_env_def)
  have k2: "validate_action (safe_mode closed_console_env) sudo_type_action
              = Inr (True, None, True)"
    by code_simp
  have k3: "request_confirmation (confirm_sensitive_actions closed_console_env)
              (channel closed_console_env) = Inl EOFError"
    by (simp add: request_confirmation_def desk_env_def closed_console_env_def)
  have h: "\<not> emergency_stop fresh_controller
    \<and> validate_action (safe_mode denying_env) sudo_type_action = Inr (True, None, True)
    \<and> request_confirmation (confirm_sensitive_actions denying_env) (channel denying_env)
        = Inr False"
    by (rule conjI [OF h1 conjI [OF h2 h3]])
  have k: "\<not> emergency_stop fresh_controller
    \<and> validate_action (safe_mode closed_console_env) sudo_type_action = Inr (True, None, True)
    \<and> request_confirmation (confirm_sensitive_actions closed_console_env)
        (channel closed_console_env) = Inl EOFError"
    by (rule conjI [OF h1 conjI [OF k2 k3]])
  note main = confirmation_gate_outcomes [where s = fresh_controller and e = denying_env
      and a = sudo_type_action and m = None and sr = fresh_controller
      and er = closed_console_env and ar = sudo_type_action and mr = None and err = EOFError]
  from main h
  have x: "execute_action denying_env fresh_controller sudo_type_action =
       Inr (failed_result (dict_get sudo_type_action ''type'' (PStr ''unknown'')) sudo_type_action
              (Some ''User denied confirmation'') True,
            fresh_controller\<lparr>trace := trace fresh_controller @ [ConfirmationRequested]\<rparr>)"
    by blast
  from main k
  have y: "execute_action closed_console_env fresh_controller sudo_type_action =
       Inl (EOFError, fresh_controller\<lparr>trace := trace fresh_controller @ [ConfirmationRequested]\<rparr>)"
    by blast
  show ?thesis
    by (rule conjI [OF h conjI [OF x conjI [OF k y]]])
qed

section \<open>Coordinate checks: results\<close>

lemma out_of_bounds_rejected:
  assumes "scaled e x = Some adj_x" and "scaled e y = Some adj_y"
    and "\<not> validate_coordinates e adj_x adj_y"
  shows "click e (PInt x) (PInt y) button clicks = (False, [])
   \<and> move_mouse e (PInt x) (PInt y) duration = (False, [])"
  using assms by (simp add: click_def move_mouse_def as_number_def)

lemma desk_scaling: "scale_by_one 0 = Some 0" "scale_by_one 100000 = Some 100000"
  by code_simp+

text \<open>
  C7 fails for \<^verbatim>\<open>drag\<close>. On the 1920 x 1080 screen the point (100000, 100000) is out of
  bounds; \<^verbatim>\<open>click\<close> and \<^verbatim>\<open>move_mouse\<close> reject it without a device call, but a drag from
  (0, 0) to that point is handed to the device and reported as a success, directly and
  through \<^verbatim>\<open>execute_action\<close>: \<^verbatim>\<open>drag\<close> never calls \<^verbatim>\<open>_validate_coordinates\<close>.
\<close>

theorem drag_out_of_bounds_performed:
  "validate_coordinates desk_env 100000 100000 = False
   \<and> click desk_env (PInt 100000) (PInt 100000) (PStr ''left'') (PInt 1) = (False, [])
   \<and> move_mouse desk_env (PInt 100000) (PInt 100000) None = (False, [])
   \<and> drag desk_env (PInt 0) (PInt 0) (PInt 100000) (PInt 100000) None
       = (True, [Drag 100000 100000 None])
   \<and> trace (state_after (execute_action desk_env fresh_controller far_drag_action))
       = [Dispatched ''drag'', Device (Drag 100000 100000 None)]"
proof -
  have "validate_coordinates desk_env 100000 100000 = False"
    by (simp add: validate_coordinates_def desk_env_def)
  moreover have
    "click desk_env (PInt 100000) (PInt 100000) (PStr ''left'') (PInt 1) = (False, [])"
    by (simp add: click_def validate_coordinates_def desk_env_def as_number_def desk_scaling)
  moreover have "move_mouse desk_env (PInt 100000) (PInt 100000) None = (False, [])"
    by (simp add: move_mouse_def validate_coordinates_def desk_env_def as_number_def
        desk_scaling)
  moreover have "drag desk_env (PInt 0) (PInt 0) (PInt 100000) (PInt 100000) None
       = (True, [Drag 100000 100000 None])"
    by (simp add: drag_def desk_env_def as_number_def desk_scaling)
  moreover have "trace (state_after (execute_action desk_env fresh_controller far_drag_action))
       = [Dispatched ''drag'', Device (Drag 100000 100000 None)]"
    by code_simp
  ultimately show ?thesis by blast
qed

section \<open>File operations outside the safe zones: results\<close>

lemma file_operation_lower: "py_lower ''file_operation'' = ''file_operation''"
  by code_simp

lemma file_operation_validated:
  assumes "dict_get a ''type'' (PStr []) = PStr ''file_operation''"
  shows "action_type_lower a = Inr ''file_operation''"
    and "validate_action sm a = Inr (True, None, True)"
proof -
  from assms show t: "action_type_lower a = Inr ''file_operation''"
    by (simp add: action_type_lower_def file_operation_lower)
  then show "validate_action sm a = Inr (True, None, True)"
    by (simp add: validate_action_def ACTION_SAFETY_LEVELS_def scan_keywords_iff)
qed

lemma file_operation_executed:
  assumes "dict_get a ''type'' (PStr []) = PStr ''file_operation''"
    and "\<not> emergency_stop s"
    and "request_confirmation (confirm_sensitive_actions e) (channel e) = Inr True"
  shows "execute_action e s a =
     Inr (failed_result (PStr ''file_operation'') a
            (Some ''Unknown action type: file_operation'') False,
          s\<lparr>trace := trace s @ [ConfirmationRequested, Dispatched ''file_operation''],
            action_history := action_history s @
              [failed_result (PStr ''file_operation'') a
                 (Some ''Unknown action type: file_operation'') False]\<rparr>)"
proof -
  have d: "dispatch e apps ''file_operation'' a = None" for apps
    by (simp add: dispatch_def)
  from assms file_operation_validated [OF assms(1)] show ?thesis
    by (simp add: execute_action_def execute_action_internal_def d)
qed

lemma monitor_rejects:
  assumes "unsafe_file_operation a"
  shows "(case dict_get a ''target'' (PStr []) of
            PStr t \<Rightarrow> (\<exists>msg. monitor_validate_action a = Inr (False, msg))
          | _ \<Rightarrow> monitor_validate_action a = Inl AttributeError)"
  using assms
  by (auto simp: unsafe_file_operation_def monitor_validate_action_def get_lower_def
        is_safe_location_def monitor_rate_check_def is_rapid_action_def Let_def
      split: pyval.splits option.splits sum.splits bool.splits if_splits)

text \<open>
  C5, as the claim states it, fails on the controller: the safety monitor blocks the
  deletion of \<^verbatim>\<open>/etc/passwd\<close>, but \<^verbatim>\<open>execute_action\<close> never consults the monitor. Its
  own validator accepts the action, confirmation is requested, and on approval the
  dispatcher is entered.
\<close>

theorem passwd_delete_reaches_confirmation:
  "monitor_validate_action passwd_delete_action
     = Inr (False, ''Blocked: Unsafe file operation in system area'')
   \<and> validate_action True passwd_delete_action = Inr (True, None, True)
   \<and> trace (state_after (execute_action desk_env fresh_controller passwd_delete_action))
       = [ConfirmationRequested, Dispatched ''file_operation'']"
proof -
  have "monitor_validate_action passwd_delete_action
     = Inr (False, ''Blocked: Unsafe file operation in system area'')"
    by code_simp
  moreover have "validate_action True passwd_delete_action = Inr (True, None, True)"
    by code_simp
  moreover have
    "trace (state_after (execute_action desk_env fresh_controller passwd_delete_action))
       = [ConfirmationRequested, Dispatched ''file_operation'']"
    by code_simp
  ultimately show ?thesis by blast
qed

text \<open>
  C5, amended. \<^verbatim>\<open>SafetyMonitor.validate_action\<close> never approves a \<^verbatim>\<open>file_operation\<close>
  whose operation is delete or format (in any letter case) and whose path names none of
  desktop, documents, downloads, pictures: it returns \<open>False\<close>, for a warning keyword in the
  target or for the unsafe location, or raises on a target that is no string. The
  controller does not call the monitor. Its validator accepts such an action with
  \<^verbatim>\<open>requires_confirmation\<close> true; confirmation is requested, and after approval the
  dispatcher is entered, finds no branch for \<^verbatim>\<open>file_operation\<close> and returns a failed
  result without any device call.
\<close>

theorem unsafe_file_operation_handling:
  assumes "unsafe_file_operation a"
  shows "(case dict_get a ''target'' (PStr []) of
            PStr t \<Rightarrow> (\<exists>msg. monitor_validate_action a = Inr (False, msg))
          | _ \<Rightarrow> monitor_validate_action a = Inl AttributeError)
     \<and> validate_action sm a = Inr (True, None, True)
     \<and> (\<not> emergency_stop s \<and>
          request_confirmation (confirm_sensitive_actions e) (channel e) = Inr True
        \<longrightarrow> execute_action e s a =
             Inr (failed_result (PStr ''file_operation'') a
                    (Some ''Unknown action type: file_operation'') False,
                  s\<lparr>trace := trace s @ [ConfirmationRequested, Dispatched ''file_operation''],
                    action_history := action_history s @
                      [failed_result (PStr ''file_operation'') a
                         (Some ''Unknown action type: file_operation'') False]\<rparr>))"
proof -
  from assms have t: "dict_get a ''type'' (PStr []) = PStr ''file_operation''"
    by (simp add: unsafe_file_operation_def)
  from monitor_rejects [OF assms] file_operation_validated(2) [OF t]
    file_operation_executed [OF t]
  show ?thesis by blast
qed

theorem unsafe_file_operation_handling_witness:
  "unsafe_file_operation passwd_delete_action
   \<and> monitor_validate_action passwd_delete_action
       = Inr (False, ''Blocked: Unsafe file operation in system area'')
   \<and> validate_action True passwd_delete_action = Inr (True, None, True)
   \<and> \<not> emergency_stop fresh_controller
   \<and> request_confirmation (confirm_sensitive_actions desk_env) (channel desk_env) = Inr True
   \<and> execute_action desk_env fresh_controller passwd_delete_action =
         Inr (failed_result (PStr ''file_operation'') passwd_delete_action
                (Some ''Unknown action type: file_operation'') False,
              fresh_controller
                \<lparr>trace := trace fresh_controller @
                            [ConfirmationRequested, Dispatched ''file_operation''],
                  action_history := action_history fresh_controller @
                    [failed_result (PStr ''file_operation'') passwd_delete_action
                       (Some ''Unknown action type: file_operation'') False]\<rparr>)"
proof -
  have h: "unsafe_file_operation passwd_delete_action"
    by code_simp
  have m: "monitor_validate_action passwd_delete_action
             = Inr (False, ''Blocked: Unsafe file operation in system area'')"
    by code_simp
  have f: "\<not> emergency_stop fresh_controller"
    by (simp add: fresh_controller_def)
  have c: "request_confirmation (confirm_sensitive_actions desk_env) (channel desk_env) = Inr True"
    by (simp add: request_confirmation_def desk_env_def)
  note main = unsafe_file_operation_handling [OF h, of True fresh_controller desk_env]
  from main have v: "validate_action True passwd_delete_action = Inr (True, None, True)"
    by (rule conjunct1 [OF conjunct2])
  from main f c
  have x: "execute_action desk_env fresh_controller passwd_delete_action =
         Inr (failed_result (PStr ''file_operation'') passwd_delete_action
                (Some ''Unknown action type: file_operation'') False,
              fresh_controller
                \<lparr>trace := trace fresh_controller @
                            [ConfirmationRequested, Dispatched ''file_operation''],
                  action_history := action_history fresh_controller @
                    [failed_result (PStr ''file_operation'') passwd_delete_action
                       (Some ''Unknown action type: file_operation'') False]\<rparr>)"
    by blast
  show ?thesis
    by (rule conjI [OF h conjI [OF m conjI [OF v conjI [OF f conjI [OF c x]]]]])
qed

section \<open>Task execution: results\<close>

text \<open>
  C1 fails on the code. The guard \<^verbatim>\<open>idx <= 2 or idx >= total_steps - 1\<close> also makes the
  step before the last critical, against its own comment "First, second, or last steps
  are critical". In a plan of four steps whose third step fails all three attempts, the
  engine aborts at step 3: it returns \<open>False\<close> with 2 steps completed, 1 failed and a
  completion rate of 1/2, and step 4 is never attempted.
\<close>

theorem step_three_of_four_aborts:
  "execute_steps third_step_fails [''step 1'', ''step 2'', ''step 3'', ''step 4''] =
     \<lparr> returned = False,
       final_summary = Some \<lparr> sum_success = False, sum_total_steps = 4,
                              sum_completed_steps = 2, sum_failed_steps = 1,
                              sum_completion_rate = 1 / 2 \<rparr>,
       final_state = \<lparr> successful_steps = 2, failed_steps = 1,
                       completed_log = [(0, ''step 1''), (1, ''step 2'')],
                       failed_log = [(2, ''step 3'')],
                       handler_calls = [(1, 0), (2, 0), (3, 0), (3, 1), (3, 2)] \<rparr> \<rparr>
   \<and> critical 3 4 \<and> \<not> spec_critical 3 4"
proof -
  have "execute_steps third_step_fails [''step 1'', ''step 2'', ''step 3'', ''step 4''] =
     \<lparr> returned = False,
       final_summary = Some \<lparr> sum_success = False, sum_total_steps = 4,
                              sum_completed_steps = 2, sum_failed_steps = 1,
                              sum_completion_rate = 1 / 2 \<rparr>,
       final_state = \<lparr> successful_steps = 2, failed_steps = 1,
                       completed_log = [(0, ''step 1''), (1, ''step 2'')],
                       failed_log = [(2, ''step 3'')],
                       handler_calls = [(1, 0), (2, 0), (3, 0), (3, 1), (3, 2)] \<rparr> \<rparr>"
    by code_simp
  moreover have "critical 3 4" by (simp add: critical_def)
  moreover have "\<not> spec_critical 3 4" by (simp add: spec_critical_def)
  ultimately show ?thesis by blast
qed

section \<open>Overall confidence: results\<close>

lemma mean_bounds:
  assumes "xs \<noteq> []" and "\<forall>x \<in> set xs. lo \<le> x \<and> x \<le> hi"
  shows "lo \<le> mean xs \<and> mean xs \<le> hi"
proof -
  have "of_nat (length xs) * lo \<le> sum_list xs \<and> sum_list xs \<le> of_nat (length xs) * hi"
    using assms(2) by (induction xs) (auto simp: algebra_simps add_mono)
  moreover from assms(1) have "0 < (of_nat (length xs) :: rat)" by simp
  ultimately show ?thesis
    unfolding mean_def by (simp add: pos_le_divide_eq pos_divide_le_eq mult.commute)
qed

lemma detect_elements_confidence:
  assumes "list_all classified_region es" and "e \<in> set es"
  shows "0 \<le> confidence e \<and> confidence e \<le> 1"
  using assms by (auto simp: list_all_iff classified_region_def min_def)

lemma calculate_confidence_range:
  assumes "list_all classified_region es"
  shows "0 \<le> calculate_confidence ocr es vlm \<and> calculate_confidence ocr es vlm \<le> 1"
proof -
  define scores where "scores =
            (if ocr_confidence ocr > 0 then [min (ocr_confidence ocr / 100) 1] else []) @
            (if es \<noteq> [] then [min (mean (map confidence es) / 100) 1] else []) @
            (if vlm \<noteq> [] \<and> \<not> py_startswith vlm ''Vision analysis''
             then [8 / 10 :: rat] else [])"
  have ui: "0 \<le> mean (map confidence es)" if "es \<noteq> []"
    using mean_bounds [of "map confidence es" 0 1] that detect_elements_confidence [OF assms]
    by auto
  have "\<forall>x \<in> set scores. 0 \<le> x \<and> x \<le> 1"
    using ui by (auto simp: scores_def min_def)
  then have "scores \<noteq> [] \<Longrightarrow> 0 \<le> mean scores \<and> mean scores \<le> 1"
    by (rule mean_bounds [rotated])
  moreover have "calculate_confidence ocr es vlm = (if scores \<noteq> [] then mean scores else 0)"
    by (simp add: calculate_confidence_def scores_def Let_def)
  ultimately show ?thesis by auto
qed

lemma perceive_screen_confidence_range:
  "0 \<le> confidence_score (perceive_screen cfg rows img reply)
   \<and> confidence_score (perceive_screen cfg rows img reply) \<le> 1"
proof -
  have "list_all classified_region (if enable_ui_parsing cfg then detect_elements img else [])"
    by (simp add: detect_elements_classified)
  from calculate_confidence_range [OF this] show ?thesis
    by (simp add: perceive_screen_def Let_def)
qed

text \<open>
  C6 fails on the code in its second half. The score stays within [0, 1]
  (\<open>perceive_screen_confidence_range\<close>), and absent sub-scores are left out of the mean,
  but the sub-scores that enter it are not the OCR confidence and the mean element
  confidence: \<^verbatim>\<open>extract_text\<close> and \<^verbatim>\<open>detect_elements\<close> already deliver both on the
  scale 0..1, and \<^verbatim>\<open>_calculate_confidence\<close> divides them by 100 once more. For the words
  ok (90) and xx (30), no elements and no scene description, the OCR confidence is 9/10
  and it is the only sub-score, yet the overall confidence is 9/1000.
\<close>

theorem confidence_divided_twice:
  "ocr_text (extract_text (6 / 10) (Some ok_xx_rows)) = ''ok''
   \<and> ocr_confidence (extract_text (6 / 10) (Some ok_xx_rows)) = 9 / 10
   \<and> confidence_score (perceive_screen default_perceiver_config (Some ok_xx_rows) (Some [])
         (VlmFailed ''timeout'')) = 9 / 1000"
proof -
  have "ocr_text (extract_text (6 / 10) (Some ok_xx_rows)) = ''ok''"
    by code_simp
  moreover have "ocr_confidence (extract_text (6 / 10) (Some ok_xx_rows)) = 9 / 10"
    by code_simp
  moreover have "confidence_score (perceive_screen default_perceiver_config (Some ok_xx_rows)
         (Some []) (VlmFailed ''timeout'')) = 9 / 1000"
    by code_simp
  ultimately show ?thesis by blast
qed

section \<open>Task decomposition: results\<close>

lemma lower_letters_not_space: "l \<in> set lower_letters \<Longrightarrow> \<not> py_isspace l"
  by (auto simp: lower_letters_def py_isspace_def)

lemma py_lower_char_not_space:
  assumes "\<not> py_isspace c"
  shows "\<not> py_isspace (py_lower_char c)"
proof (cases "map_of (zip upper_letters lower_letters) c")
  case None
  with assms show ?thesis by (simp add: py_lower_char_def)
next
  case (Some l)
  then have "l \<in> set lower_letters"
    by (auto dest!: map_of_SomeD set_zip_rightD)
  with Some show ?thesis by (simp add: py_lower_char_def lower_letters_not_space)
qed

lemma no_leading_blank_lower: "no_leading_blank s \<Longrightarrow> no_leading_blank (py_lower s)"
  by (cases s) (simp_all add: no_leading_blank_def py_lower_def py_lower_char_not_space)

lemma no_leading_blank_replace:
  assumes "no_leading_blank s" and "old \<noteq> []" and "new \<noteq> []" and "\<not> py_isspace (hd new)"
  shows "no_leading_blank (py_replace s old new)"
proof (cases s)
  case Nil
  with assms show ?thesis by (simp add: py_replace_def no_leading_blank_def)
next
  case (Cons c cs)
  with assms show ?thesis
    by (cases new) (auto simp: py_replace_def no_leading_blank_def)
qed

lemma no_leading_blank_foldl:
  assumes "\<forall>(typo, correction) \<in> set fs.
             typo \<noteq> [] \<and> correction \<noteq> [] \<and> \<not> py_isspace (hd correction)"
    and "no_leading_blank s"
  shows "no_leading_blank (foldl (\<lambda>c (typo, correction). py_replace c typo correction) s fs)"
  using assms
proof (induction fs arbitrary: s)
  case Nil
  then show ?case by simp
next
  case (Cons f fs)
  obtain typo correction where f: "f = (typo, correction)" by (cases f)
  with Cons.prems have "no_leading_blank (py_replace s typo correction)"
    by (auto intro: no_leading_blank_replace)
  with Cons.IH [of "py_replace s typo correction"] Cons.prems(1) f show ?case by simp
qed

lemma no_leading_blank_fix_typos: "no_leading_blank s \<Longrightarrow> no_leading_blank (fix_typos s)"
  unfolding fix_typos_def
  by (rule no_leading_blank_foldl) (simp_all add: typo_fixes_def py_isspace_def)

text \<open>The first piece of a split starts with what the scan had already read.\<close>

lemma split_scan_head: "\<exists>p ps. split_scan k sep acc xs = (rev acc @ p) # ps"
proof (induction k sep acc xs rule: split_scan.induct)
  case (1 k sep acc)
  then show ?case by simp
next
  case (2 k sep acc c cs)
  then show ?case by simp
next
  case (3 sep acc c cs)
  show ?case
  proof (cases "sep \<noteq> [] \<and> prefix sep (c # cs)")
    case True
    then show ?thesis by simp
  next
    case False
    with 3 obtain p ps where "split_scan 0 sep (c # acc) cs = (rev (c # acc) @ p) # ps"
      by blast
    with False show ?thesis by auto
  qed
qed

lemma py_strip_nonblank: "\<not> py_isspace c \<Longrightarrow> py_strip (c # p) \<noteq> []"
  by (auto simp: py_strip_def)

lemma split_keeps_first:
  assumes "s \<noteq> []" and "no_leading_blank s" and "py_isspace (hd sep)"
  shows "map py_strip (filter (\<lambda>c. py_strip c \<noteq> []) (py_split s sep)) \<noteq> []"
proof -
  from assms(1) obtain c cs where s: "s = c # cs" by (cases s) auto
  with assms(2) have c: "\<not> py_isspace c" by (simp add: no_leading_blank_def)
  with assms(3) have "\<not> (sep \<noteq> [] \<and> prefix sep (c # cs))"
    by (cases sep) auto
  then have "py_split s sep = split_scan 0 sep [c] cs"
    unfolding py_split_def s by (simp only: split_scan.simps if_False rev.simps append_Nil)
  with split_scan_head [of 0 sep "[c]" cs]
  obtain p ps where "py_split s sep = (c # p) # ps" by auto
  with py_strip_nonblank [OF c] show ?thesis by simp
qed

lemma py_in_nonempty: "py_in sub s \<Longrightarrow> sub \<noteq> [] \<Longrightarrow> s \<noteq> []"
  by (cases s) auto

lemma simple_split_nonempty:
  assumes "no_leading_blank cmd_lower"
  shows "simple_split command cmd_lower \<noteq> []"
proof -
  have piece: "map py_strip (filter (\<lambda>c. py_strip c \<noteq> []) (py_split cmd_lower sep)) \<noteq> []"
    if "py_in sep cmd_lower" and "sep \<noteq> []" and "py_isspace (hd sep)" for sep
    using that assms py_in_nonempty [of sep cmd_lower] by (intro split_keeps_first) auto
  have "py_isspace (hd '' and '')" and "py_isspace (hd '' then '')"
    by (simp_all add: py_isspace_def)
  with piece [of "'' and ''"] piece [of "'' then ''"] show ?thesis
    unfolding simple_split_def by (simp del: map_is_Nil_conv)
qed

lemma rule_based_nonempty:
  "no_leading_blank command \<Longrightarrow> rule_based est command \<noteq> []"
  by (auto simp: rule_based_def Let_def split: prod.splits
      intro!: simple_split_nonempty no_leading_blank_fix_typos no_leading_blank_lower)

lemma llm_refactor_nonempty: "llm_refactor command first second = Some lines \<Longrightarrow> lines \<noteq> []"
  by (auto simp: llm_refactor_def secondary_attempt_def meaningful_def Let_def
      split: option.splits if_splits)

text \<open>
  C9, as the claim states it, fails: when the language model is not reachable, the
  command consisting of the separator " and " alone matches no pattern, is split on
  " and " into two empty pieces, both of which the split drops, and the decomposer returns
  the empty list; \<^verbatim>\<open>execute_user_command\<close> then reports failure without a session.
\<close>

theorem separator_only_command_empty:
  "refactor_user_prompt default_search_term None None '' and '' = []
   \<and> returned (execute_user_command default_search_term None None third_step_fails '' and '')
       = False"
proof -
  have "refactor_user_prompt default_search_term None None '' and '' = []"
    by code_simp
  moreover have
    "returned (execute_user_command default_search_term None None third_step_fails '' and '')
       = False"
    by code_simp
  ultimately show ?thesis by blast
qed

text \<open>
  C9, amended. For every command without a leading blank, which is what
  \<^verbatim>\<open>get_user_prompt\<close> hands on after \<^verbatim>\<open>strip()\<close>, and whatever the language model
  replies or fails to reply, the decomposer returns at least one step: the lines of the
  model when there are at least two distinct ones, else the steps of the rule-based
  patterns, else the non-blank pieces of the command split on " and " or " then ", else
  the whole command as a single step.
\<close>

theorem refactor_user_prompt_nonempty:
  "no_leading_blank command \<Longrightarrow> refactor_user_prompt est first second command \<noteq> []"
  by (auto simp: refactor_user_prompt_def rule_based_nonempty
      dest: llm_refactor_nonempty split: option.splits)

theorem refactor_user_prompt_nonempty_witness:
  "no_leading_blank ''press alt+tab and then close it''
   \<and> refactor_user_prompt default_search_term None None ''press alt+tab and then close it''
       \<noteq> []"
proof -
  have h: "no_leading_blank ''press alt+tab and then close it''"
    by (simp add: no_leading_blank_def py_isspace_def)
  show ?thesis
    by (rule conjI [OF h refactor_user_prompt_nonempty [OF h]])
qed

end
